theory Spec2Isabelle
  imports Main "HOL-Library.Word" "HOL-Library.Signed_Division"
begin

unbundle bit_operations_syntax

section \<open>Outcomes of an evaluation\<close>

text \<open>
  The expression engine of \<^verbatim>\<open>src/Expr.cc\<close> returns a \<^verbatim>\<open>Val*\<close> that may be null,
  and it leaves a function in other ways, each a constructor of \<open>abort\<close>:
  \<^item> \<open>RuntimeError msg\<close>: \<^verbatim>\<open>Expr::RuntimeError\<close> and \<^verbatim>\<open>RuntimeErrorWithCallStack\<close>
    hand the message to the reporter, which does not return: the source itself says so
    where it matters (\<^verbatim>\<open>FieldExpr::Fold\<close>: \<^verbatim>\<open>RuntimeError("field value missing");
    assert(false); return 0; // Will never get here\<close>, and \<^verbatim>\<open>CastExpr::Eval\<close>:
    \<^verbatim>\<open>return 0;  // not reached\<close>). The statements after a call of \<^verbatim>\<open>RuntimeError\<close>
    are therefore not executed, and the evaluation produces no value;
  \<^item> \<open>InternalError msg\<close>: \<^verbatim>\<open>Internal\<close>, \<^verbatim>\<open>BadTag\<close> and \<^verbatim>\<open>reporter->InternalError\<close>,
    which end the process;
  \<^item> \<open>NullPointer place\<close>: the code calls a member of, or dereferences, a null pointer;
  \<^item> \<open>SignedOverflow expr\<close>: a quotient or remainder of \<^verbatim>\<open>bro_int_t\<close> whose quotient
    does not fit the type, which C++ leaves undefined and on which the division
    instruction traps;
  \<^item> \<open>Unspecified what\<close>: the behaviour is decided by code of the repository that is
    not among the sources at hand (an accessor of \<^verbatim>\<open>Val\<close> applied to a payload of
    another kind, a container that this development does not embed).
\<close>

datatype abort =
    RuntimeError string
  | InternalError string
  | NullPointer string
  | SignedOverflow string
  | Unspecified string

type_synonym 'a result = "abort + 'a"

section \<open>Types and values\<close>

datatype TypeTag =
    TYPE_VOID | TYPE_BOOL | TYPE_INT | TYPE_COUNT | TYPE_COUNTER | TYPE_DOUBLE
  | TYPE_TIME | TYPE_INTERVAL | TYPE_STRING | TYPE_PATTERN | TYPE_ENUM | TYPE_TIMER
  | TYPE_PORT | TYPE_ADDR | TYPE_SUBNET | TYPE_ANY | TYPE_TABLE | TYPE_UNION
  | TYPE_RECORD | TYPE_LIST | TYPE_FUNC | TYPE_FILE | TYPE_VECTOR | TYPE_OPAQUE
  | TYPE_TYPE | TYPE_ERROR

datatype InternalTypeTag =
    TYPE_INTERNAL_VOID | TYPE_INTERNAL_INT | TYPE_INTERNAL_UNSIGNED
  | TYPE_INTERNAL_DOUBLE | TYPE_INTERNAL_STRING | TYPE_INTERNAL_ADDR
  | TYPE_INTERNAL_SUBNET | TYPE_INTERNAL_OTHER | TYPE_INTERNAL_ERROR

datatype attr_tag = ATTR_OPTIONAL | ATTR_DEFAULT | ATTR_REDEF | ATTR_DEPRECATED

text \<open>
  \<^verbatim>\<open>bro_int_t\<close> and \<^verbatim>\<open>bro_uint_t\<close> are the 64-bit signed and unsigned integers; both are
  a \<open>64 word\<close> here, read by \<open>sint\<close> or \<open>unat\<close>. A \<^verbatim>\<open>double\<close> is kept as the 64 bits
  of its IEEE 754 representation; its arithmetic is a parameter (\<open>fp_ops\<close> below), its
  comparison with zero is not.

  A static type is a scalar tag, a vector type with its yield type, a record type with
  its field declarations, or a type list. A field declaration carries its attributes;
  the expression of an attribute (\<^verbatim>\<open>AttrExpr()\<close>) is kept as the value that
  \<^verbatim>\<open>AttrExpr()->Eval(0)\<close> yields, \<open>None\<close> for null.

  A value carries its type, as \<^verbatim>\<open>Val::Type()\<close> does. A scalar is its type tag and
  the 64 bits of the union \<^verbatim>\<open>val\<close> (\<^verbatim>\<open>int_val\<close>, \<^verbatim>\<open>uint_val\<close> or \<^verbatim>\<open>double_val\<close>, as
  the internal type of the tag says). A vector value carries the yield type of its
  vector type and its cells, a record value the field declarations of its record type
  and its fields. A cell or field is a \<open>Val option\<close>: \<open>None\<close> is the null pointer that
  marks an undefined element or an absent field. Tables, sets, patterns, addresses and
  subnets are not embedded.
\<close>

datatype BroType =
    BaseType TypeTag
  | VectorType BroType
  | RecordType "TypeDecl list"
  | TypeList "BroType list"
and TypeDecl = TypeDecl (td_type: BroType) (td_id: string) (td_attrs: "Attr list")
and Attr = Attr (attr_Tag: attr_tag) (AttrExpr_Eval0: "Val option")
and Val =
    ScalarVal TypeTag "64 word"
  | StringVal string
  | VectorVal BroType "Val option list"
  | RecordVal "TypeDecl list" "Val option list"
  | ListVal "Val list"

fun Tag :: "BroType \<Rightarrow> TypeTag" where
  "Tag (BaseType t) = t"
| "Tag (VectorType _) = TYPE_VECTOR"
| "Tag (RecordType _) = TYPE_RECORD"
| "Tag (TypeList _) = TYPE_LIST"

text \<open>
  Modelled from the spec: \<^verbatim>\<open>BroType::InternalType\<close> (\<^verbatim>\<open>Type.h\<close> is not among
  the sources). Section 3 of the spec lists the scalar tags; bool, signed integer and enum
  are held as a signed integer, the unsigned integers (count, counter, port) as an
  unsigned one, double, time and interval as a double, string as a string.
\<close>

fun InternalType_of_tag :: "TypeTag \<Rightarrow> InternalTypeTag" where
  "InternalType_of_tag TYPE_BOOL = TYPE_INTERNAL_INT"
| "InternalType_of_tag TYPE_INT = TYPE_INTERNAL_INT"
| "InternalType_of_tag TYPE_ENUM = TYPE_INTERNAL_INT"
| "InternalType_of_tag TYPE_COUNT = TYPE_INTERNAL_UNSIGNED"
| "InternalType_of_tag TYPE_COUNTER = TYPE_INTERNAL_UNSIGNED"
| "InternalType_of_tag TYPE_PORT = TYPE_INTERNAL_UNSIGNED"
| "InternalType_of_tag TYPE_DOUBLE = TYPE_INTERNAL_DOUBLE"
| "InternalType_of_tag TYPE_TIME = TYPE_INTERNAL_DOUBLE"
| "InternalType_of_tag TYPE_INTERVAL = TYPE_INTERNAL_DOUBLE"
| "InternalType_of_tag TYPE_STRING = TYPE_INTERNAL_STRING"
| "InternalType_of_tag TYPE_ADDR = TYPE_INTERNAL_ADDR"
| "InternalType_of_tag TYPE_SUBNET = TYPE_INTERNAL_SUBNET"
| "InternalType_of_tag TYPE_VOID = TYPE_INTERNAL_VOID"
| "InternalType_of_tag TYPE_ERROR = TYPE_INTERNAL_ERROR"
| "InternalType_of_tag _ = TYPE_INTERNAL_OTHER"

definition InternalType :: "BroType \<Rightarrow> InternalTypeTag" where
  "InternalType t = InternalType_of_tag (Tag t)"

fun YieldType :: "BroType \<Rightarrow> BroType" where
  "YieldType (VectorType y) = y"
| "YieldType t = t"

definition IsVector :: "TypeTag \<Rightarrow> bool" where
  "IsVector t = (t = TYPE_VECTOR)"

fun Val_Type :: "Val \<Rightarrow> BroType" where
  "Val_Type (ScalarVal t _) = BaseType t"
| "Val_Type (StringVal _) = BaseType TYPE_STRING"
| "Val_Type (VectorVal y _) = VectorType y"
| "Val_Type (RecordVal ds _) = RecordType ds"
| "Val_Type (ListVal _) = TypeList []"

text \<open>\<^verbatim>\<open>val_mgr->GetBool\<close>, \<^verbatim>\<open>GetInt\<close>, \<^verbatim>\<open>GetCount\<close> and the constructors of a double.\<close>

definition GetBool :: "bool \<Rightarrow> Val" where
  "GetBool b = ScalarVal TYPE_BOOL (if b then 1 else 0)"

definition GetInt :: "64 word \<Rightarrow> Val" where
  "GetInt i = ScalarVal TYPE_INT i"

definition GetCount :: "64 word \<Rightarrow> Val" where
  "GetCount u = ScalarVal TYPE_COUNT u"

section \<open>Arithmetic of the three numeric domains\<close>

text \<open>
  \<^verbatim>\<open>i1 / i2\<close> and \<^verbatim>\<open>i1 % i2\<close> on \<^verbatim>\<open>bro_int_t\<close>, for a divisor that is not zero. C++
  division and remainder on signed integers truncate towards zero. The quotient of the
  least integer by \<open>-1\<close> does not fit the type: both expressions are undefined there,
  and the division instruction traps. Sums, differences and products that do not fit
  wrap around on the two's-complement machine.
\<close>

definition sdiv64 :: "64 word \<Rightarrow> 64 word \<Rightarrow> (64 word) result" where
  "sdiv64 i1 i2 =
     (if sint i1 = - (2 ^ 63) \<and> sint i2 = - 1 then Inl (SignedOverflow ''i1 / i2'')
      else Inr (word_of_int (sint i1 sdiv sint i2)))"

definition smod64 :: "64 word \<Rightarrow> 64 word \<Rightarrow> (64 word) result" where
  "smod64 i1 i2 =
     (if sint i1 = - (2 ^ 63) \<and> sint i2 = - 1 then Inl (SignedOverflow ''i1 % i2'')
      else Inr (word_of_int (sint i1 smod sint i2)))"

text \<open>
  The operations of \<^verbatim>\<open>double\<close> that \<^verbatim>\<open>BinaryExpr::Fold\<close> uses, on the 64 bits of the
  operands. They are a parameter of the development: nothing below depends on what
  they compute.
\<close>

record fp_ops =
  dadd :: "64 word \<Rightarrow> 64 word \<Rightarrow> 64 word"
  dsub :: "64 word \<Rightarrow> 64 word \<Rightarrow> 64 word"
  dmul :: "64 word \<Rightarrow> 64 word \<Rightarrow> 64 word"
  ddiv :: "64 word \<Rightarrow> 64 word \<Rightarrow> 64 word"
  dlt :: "64 word \<Rightarrow> 64 word \<Rightarrow> bool"
  dle :: "64 word \<Rightarrow> 64 word \<Rightarrow> bool"
  deq :: "64 word \<Rightarrow> 64 word \<Rightarrow> bool"

text \<open>
  \<^verbatim>\<open>d2 == 0\<close> on a double: true of the two zeros, whose bits other than the sign are
  all clear.
\<close>

definition d_is_zero :: "64 word \<Rightarrow> bool" where
  "d_is_zero d = (d AND 0x7FFFFFFFFFFFFFFF = 0)"

definition bool_int :: "bool \<Rightarrow> 64 word" where
  "bool_int b = (if b then 1 else 0)"

section \<open>Expression tags\<close>

datatype BroExprTag =
    EXPR_NAME | EXPR_CONST | EXPR_CLONE | EXPR_INCR | EXPR_DECR | EXPR_NOT
  | EXPR_COMPLEMENT | EXPR_POSITIVE | EXPR_NEGATE | EXPR_ADD | EXPR_SUB
  | EXPR_ADD_TO | EXPR_REMOVE_FROM | EXPR_TIMES | EXPR_DIVIDE | EXPR_MOD
  | EXPR_AND | EXPR_OR | EXPR_XOR | EXPR_AND_AND | EXPR_OR_OR
  | EXPR_LT | EXPR_LE | EXPR_EQ | EXPR_NE | EXPR_GE | EXPR_GT
  | EXPR_COND | EXPR_REF | EXPR_ASSIGN | EXPR_INDEX | EXPR_LIST | EXPR_EVENT
  | EXPR_ARITH_COERCE | EXPR_RECORD_COERCE | EXPR_INDEX_SLICE_ASSIGN

section \<open>BinaryExpr::Fold\<close>

text \<open>
  Modelled from the spec: \<^verbatim>\<open>Val::InternalInt\<close>, \<^verbatim>\<open>InternalUnsigned\<close> and
  \<^verbatim>\<open>InternalDouble\<close> (\<^verbatim>\<open>Val.h\<close> is not among the sources): the scalar payload of a
  value whose internal type is the one asked for. What they do on a value of another
  kind is not decided here.
\<close>

fun payload :: "InternalTypeTag \<Rightarrow> Val \<Rightarrow> (64 word) result" where
  "payload it (ScalarVal t w) =
     (if InternalType_of_tag t = it then Inr w
      else Inl (Unspecified ''internal accessor on a payload of another kind''))"
| "payload it _ = Inl (Unspecified ''internal accessor on a payload of another kind'')"

text \<open>
  Modelled from the spec: \<^verbatim>\<open>Bstr_cmp\<close> (\<^verbatim>\<open>BroString.cc\<close> is not among the sources):
  "string comparison uses lexicographic byte comparison" (section 4.2); negative, zero
  or positive.
\<close>

fun Bstr_cmp :: "string \<Rightarrow> string \<Rightarrow> int" where
  "Bstr_cmp [] [] = 0"
| "Bstr_cmp [] (y # ys) = - 1"
| "Bstr_cmp (x # xs) [] = 1"
| "Bstr_cmp (x # xs) (y # ys) =
     (if (of_char x :: nat) < of_char y then - 1
      else if (of_char y :: nat) < of_char x then 1
      else Bstr_cmp xs ys)"

text \<open>\<^verbatim>\<open>BinaryExpr::StringFold\<close>; \<^verbatim>\<open>v1\<close> is a string, as the caller has checked.\<close>

fun StringFold :: "BroExprTag \<Rightarrow> Val \<Rightarrow> Val \<Rightarrow> Val result" where
  "StringFold tag (StringVal s1) (StringVal s2) =
     (case tag of
        EXPR_LT \<Rightarrow> Inr (GetBool (Bstr_cmp s1 s2 < 0))
      | EXPR_LE \<Rightarrow> Inr (GetBool (Bstr_cmp s1 s2 \<le> 0))
      | EXPR_EQ \<Rightarrow> Inr (GetBool (Bstr_cmp s1 s2 = 0))
      | EXPR_NE \<Rightarrow> Inr (GetBool (Bstr_cmp s1 s2 \<noteq> 0))
      | EXPR_GE \<Rightarrow> Inr (GetBool (Bstr_cmp s1 s2 \<ge> 0))
      | EXPR_GT \<Rightarrow> Inr (GetBool (Bstr_cmp s1 s2 > 0))
      | EXPR_ADD \<Rightarrow> Inr (StringVal (s1 @ s2))
      | EXPR_ADD_TO \<Rightarrow> Inr (StringVal (s1 @ s2))
      | _ \<Rightarrow> Inl (InternalError ''BinaryExpr::StringFold''))"
| "StringFold tag _ _ = Inl (Unspecified ''Val::AsString on a value of another kind'')"

text \<open>
  The \<^verbatim>\<open>switch\<close> of \<^verbatim>\<open>BinaryExpr::Fold\<close>. The operands arrive as \<open>a\<close> and \<open>b\<close>:
  they are \<^verbatim>\<open>i1, i2\<close> when \<^verbatim>\<open>is_integral\<close>, \<^verbatim>\<open>u1, u2\<close> when \<^verbatim>\<open>is_unsigned\<close> and
  \<^verbatim>\<open>d1, d2\<close> otherwise. The result is the triple \<^verbatim>\<open>(i3, u3, d3)\<close>, whose components
  start at zero and of which one is assigned. The macros \<^verbatim>\<open>DO_FOLD\<close>,
  \<^verbatim>\<open>DO_INT_FOLD\<close>, \<^verbatim>\<open>DO_UINT_FOLD\<close> and \<^verbatim>\<open>DO_INT_VAL_FOLD\<close> are the four
  definitions that follow.
\<close>

type_synonym acc = "64 word \<times> 64 word \<times> 64 word"

definition DO_FOLD ::
  "bool \<Rightarrow> bool \<Rightarrow> (64 word \<Rightarrow> 64 word \<Rightarrow> 64 word) \<Rightarrow> (64 word \<Rightarrow> 64 word \<Rightarrow> 64 word)
     \<Rightarrow> 64 word \<Rightarrow> 64 word \<Rightarrow> acc result" where
  "DO_FOLD is_integral is_unsigned iop dop a b =
     (if is_integral then Inr (iop a b, 0, 0)
      else if is_unsigned then Inr (0, iop a b, 0)
      else Inr (0, 0, dop a b))"

definition DO_INT_FOLD ::
  "bool \<Rightarrow> bool \<Rightarrow> (bool \<Rightarrow> bool \<Rightarrow> bool) \<Rightarrow> 64 word \<Rightarrow> 64 word \<Rightarrow> acc result" where
  "DO_INT_FOLD is_integral is_unsigned bop a b =
     (if is_integral then Inr (bool_int (bop (a \<noteq> 0) (b \<noteq> 0)), 0, 0)
      else if is_unsigned then Inr (0, bool_int (bop (a \<noteq> 0) (b \<noteq> 0)), 0)
      else Inl (RuntimeError ''bad type in BinaryExpr::Fold''))"

definition DO_UINT_FOLD ::
  "bool \<Rightarrow> (64 word \<Rightarrow> 64 word \<Rightarrow> 64 word) \<Rightarrow> 64 word \<Rightarrow> 64 word \<Rightarrow> acc result" where
  "DO_UINT_FOLD is_unsigned uop a b =
     (if is_unsigned then Inr (0, uop a b, 0)
      else Inl (RuntimeError ''bad type in BinaryExpr::Fold''))"

definition DO_INT_VAL_FOLD ::
  "bool \<Rightarrow> bool \<Rightarrow> (64 word \<Rightarrow> 64 word \<Rightarrow> bool) \<Rightarrow> (64 word \<Rightarrow> 64 word \<Rightarrow> bool)
     \<Rightarrow> (64 word \<Rightarrow> 64 word \<Rightarrow> bool) \<Rightarrow> 64 word \<Rightarrow> 64 word \<Rightarrow> acc result" where
  "DO_INT_VAL_FOLD is_integral is_unsigned sop uop dop a b =
     (if is_integral then Inr (bool_int (sop a b), 0, 0)
      else if is_unsigned then Inr (bool_int (uop a b), 0, 0)
      else Inr (bool_int (dop a b), 0, 0))"

definition Fold_switch ::
  "fp_ops \<Rightarrow> BroExprTag \<Rightarrow> bool \<Rightarrow> bool \<Rightarrow> 64 word \<Rightarrow> 64 word \<Rightarrow> acc result" where
  "Fold_switch fp tag is_integral is_unsigned a b =
     (case tag of
        EXPR_ADD \<Rightarrow> DO_FOLD is_integral is_unsigned (+) (dadd fp) a b
      | EXPR_ADD_TO \<Rightarrow> DO_FOLD is_integral is_unsigned (+) (dadd fp) a b
      | EXPR_SUB \<Rightarrow> DO_FOLD is_integral is_unsigned (-) (dsub fp) a b
      | EXPR_REMOVE_FROM \<Rightarrow> DO_FOLD is_integral is_unsigned (-) (dsub fp) a b
      | EXPR_TIMES \<Rightarrow> DO_FOLD is_integral is_unsigned (*) (dmul fp) a b
      | EXPR_DIVIDE \<Rightarrow>
          (if is_integral then
             (if b = 0 then Inl (RuntimeError ''division by zero'')
              else
                (case sdiv64 a b of
                   Inl e \<Rightarrow> Inl e
                 | Inr i3 \<Rightarrow> Inr (i3, 0, 0)))
           else if is_unsigned then
             (if b = 0 then Inl (RuntimeError ''division by zero'')
              else Inr (0, a div b, 0))
           else
             (if d_is_zero b then Inl (RuntimeError ''division by zero'')
              else Inr (0, 0, ddiv fp a b)))
      | EXPR_MOD \<Rightarrow>
          (if is_integral then
             (if b = 0 then Inl (RuntimeError ''modulo by zero'')
              else
                (case smod64 a b of
                   Inl e \<Rightarrow> Inl e
                 | Inr i3 \<Rightarrow> Inr (i3, 0, 0)))
           else if is_unsigned then
             (if b = 0 then Inl (RuntimeError ''modulo by zero'')
              else Inr (0, a mod b, 0))
           else Inl (RuntimeError ''bad type in BinaryExpr::Fold''))
      | EXPR_AND \<Rightarrow> DO_UINT_FOLD is_unsigned (AND) a b
      | EXPR_OR \<Rightarrow> DO_UINT_FOLD is_unsigned (OR) a b
      | EXPR_XOR \<Rightarrow> DO_UINT_FOLD is_unsigned (XOR) a b
      | EXPR_AND_AND \<Rightarrow> DO_INT_FOLD is_integral is_unsigned (\<and>) a b
      | EXPR_OR_OR \<Rightarrow> DO_INT_FOLD is_integral is_unsigned (\<or>) a b
      | EXPR_LT \<Rightarrow> DO_INT_VAL_FOLD is_integral is_unsigned (<s) (<) (dlt fp) a b
      | EXPR_LE \<Rightarrow> DO_INT_VAL_FOLD is_integral is_unsigned (\<le>s) (\<le>) (dle fp) a b
      | EXPR_EQ \<Rightarrow> DO_INT_VAL_FOLD is_integral is_unsigned (=) (=) (deq fp) a b
      | EXPR_NE \<Rightarrow>
          DO_INT_VAL_FOLD is_integral is_unsigned (\<noteq>) (\<noteq>) (\<lambda>x y. \<not> deq fp x y) a b
      | EXPR_GE \<Rightarrow>
          DO_INT_VAL_FOLD is_integral is_unsigned (\<lambda>x y. y \<le>s x) (\<ge>) (\<lambda>x y. dle fp y x) a b
      | EXPR_GT \<Rightarrow>
          DO_INT_VAL_FOLD is_integral is_unsigned (\<lambda>x y. y <s x) (>) (\<lambda>x y. dlt fp y x) a b
      | _ \<Rightarrow> Inl (InternalError ''BinaryExpr::Fold''))"

text \<open>
  The end of \<^verbatim>\<open>BinaryExpr::Fold\<close>: the value is built after the type of the
  expression (its yield type when that is a vector). An interval is made by
  \<^verbatim>\<open>IntervalVal(d3, 1.0)\<close>, that is \<^verbatim>\<open>d3\<close> in units of one second.
\<close>

definition Fold_result :: "BroType \<Rightarrow> acc \<Rightarrow> Val" where
  "Fold_result type r =
     (case r of (i3, u3, d3) \<Rightarrow>
        (let ret_type = (if IsVector (Tag type) then YieldType type else type) in
         if Tag ret_type = TYPE_INTERVAL then ScalarVal TYPE_INTERVAL d3
         else if InternalType ret_type = TYPE_INTERNAL_DOUBLE then ScalarVal (Tag ret_type) d3
         else if InternalType ret_type = TYPE_INTERNAL_UNSIGNED then GetCount u3
         else if Tag ret_type = TYPE_BOOL then GetBool (i3 \<noteq> 0)
         else GetInt i3))"

text \<open>
  \<^verbatim>\<open>BinaryExpr::Fold\<close>. The branches for patterns, sets, addresses and subnets are
  taken by values that are not embedded. \<open>tag\<close> and \<open>type\<close> are the fields of the
  expression node.
\<close>

definition Fold :: "fp_ops \<Rightarrow> BroExprTag \<Rightarrow> BroType \<Rightarrow> Val \<Rightarrow> Val \<Rightarrow> Val result" where
  "Fold fp tag type v1 v2 =
     (let it = InternalType (Val_Type v1) in
      if it = TYPE_INTERNAL_STRING then StringFold tag v1 v2
      else if it = TYPE_INTERNAL_INT \<or> it = TYPE_INTERNAL_UNSIGNED \<or> it = TYPE_INTERNAL_DOUBLE
      then
        (case payload it v1 of
           Inl e \<Rightarrow> Inl e
         | Inr a \<Rightarrow>
             (case payload it v2 of
                Inl e \<Rightarrow> Inl e
              | Inr b \<Rightarrow>
                  (case Fold_switch fp tag (it = TYPE_INTERNAL_INT) (it = TYPE_INTERNAL_UNSIGNED) a b of
                     Inl e \<Rightarrow> Inl e
                   | Inr r \<Rightarrow> Inr (Fold_result type r))))
      else Inl (RuntimeError ''bad type in BinaryExpr::Fold''))"

section \<open>IncrExpr::DoSingleEval\<close>

text \<open>
  Modelled from the spec: \<^verbatim>\<open>Val::CoerceToInt\<close> (\<^verbatim>\<open>Val.h\<close> is not among the sources):
  the integer a value carries, as a \<^verbatim>\<open>bro_int_t\<close>. Converting a \<^verbatim>\<open>bro_uint_t\<close> to the
  signed type of the same width keeps its 64 bits. The conversion of a double is not
  decided here.
\<close>

fun CoerceToInt :: "Val \<Rightarrow> (64 word) result" where
  "CoerceToInt (ScalarVal t w) =
     (if InternalType_of_tag t = TYPE_INTERNAL_INT \<or> InternalType_of_tag t = TYPE_INTERNAL_UNSIGNED
      then Inr w
      else Inl (Unspecified ''Val::CoerceToInt on a payload that is not integral''))"
| "CoerceToInt _ = Inl (Unspecified ''Val::CoerceToInt on a payload that is not integral'')"

text \<open>
  \<^verbatim>\<open>IncrExpr::DoSingleEval\<close>; \<open>tag\<close> and \<open>type\<close> are the fields of the node. \<^verbatim>\<open>k\<close> is
  signed: \<open>k <s 0\<close> is the test \<^verbatim>\<open>k < 0\<close>.
\<close>

definition IncrExpr_DoSingleEval :: "BroExprTag \<Rightarrow> BroType \<Rightarrow> Val \<Rightarrow> Val result" where
  "IncrExpr_DoSingleEval tag type v =
     (case CoerceToInt v of
        Inl e \<Rightarrow> Inl e
      | Inr k0 \<Rightarrow>
          (let ret_type = (if IsVector (Tag type) then YieldType type else type);
               ret = (\<lambda>k. if Tag ret_type = TYPE_INT then GetInt k else GetCount k)
           in if tag = EXPR_INCR then Inr (ret (k0 + 1))
              else
                (let k = k0 - 1
                 in if k <s 0 \<and> InternalType (Val_Type v) = TYPE_INTERNAL_UNSIGNED
                    then Inl (RuntimeError ''count underflow'')
                    else Inr (ret k))))"

section \<open>Slice indices\<close>

text \<open>
  \<^verbatim>\<open>static int get_slice_index(int idx, int len)\<close>, on 32-bit integers. \<^verbatim>\<open>abs\<close> of the
  most negative \<^verbatim>\<open>int\<close> has no defined result in C++; two's-complement machines return
  the operand, as the negation here does.
\<close>

definition c_abs :: "32 word \<Rightarrow> 32 word" where
  "c_abs x = (if x <s 0 then - x else x)"

definition get_slice_index :: "32 word \<Rightarrow> 32 word \<Rightarrow> 32 word" where
  "get_slice_index idx len =
     (if len <s c_abs idx then (if 0 <s idx then len else 0)
      else if idx <s 0 then idx + len
      else idx)"

text \<open>
  The callers (\<^verbatim>\<open>IndexExpr::Fold\<close> and \<^verbatim>\<open>IndexExpr::Assign\<close>) pass
  \<^verbatim>\<open>lv->Index(0)->CoerceToInt()\<close>, a \<^verbatim>\<open>bro_int_t\<close>, for the parameter \<^verbatim>\<open>int idx\<close>: the
  conversion keeps the low 32 bits.
\<close>

definition slice_endpoint :: "64 word \<Rightarrow> 32 word \<Rightarrow> 32 word" where
  "slice_endpoint v len = get_slice_index (ucast v) len"

section \<open>Vector values\<close>

text \<open>
  Modelled from the spec: the operations of \<^verbatim>\<open>VectorVal\<close> (\<^verbatim>\<open>Val.cc\<close> is not among the
  sources). A cell holds a value or "no value" (section 3). \<open>Lookup\<close> gives the cell,
  and no value beyond the end. \<open>Assign\<close> stores into a cell and grows the vector to
  reach it, the cells in between holding no value: \<^verbatim>\<open>BinaryExpr::Eval\<close> fills a vector it
  has just created by \<^verbatim>\<open>Assign(i, ...)\<close> for \<open>i = 0, 1, ...\<close> and is specified to
  return a vector of the operands' length (section 8), and \<^verbatim>\<open>AddToExpr::Eval\<close> appends
  by \<^verbatim>\<open>Assign(vv->Size(), v2)\<close>. \<open>Resize\<close> cuts or pads with cells of no value.
  \<open>Assign\<close>'s check of the element's type, whose outcome the callers embedded here
  ignore, is left out.
\<close>

definition VectorVal_Lookup :: "Val option list \<Rightarrow> nat \<Rightarrow> Val option" where
  "VectorVal_Lookup xs i = (if i < length xs then xs ! i else None)"

definition VectorVal_Assign :: "Val option list \<Rightarrow> nat \<Rightarrow> Val option \<Rightarrow> Val option list" where
  "VectorVal_Assign xs i e =
     (if i < length xs then xs[i := e] else xs @ replicate (i - length xs) None @ [e])"

definition VectorVal_Resize :: "Val option list \<Rightarrow> nat \<Rightarrow> Val option list" where
  "VectorVal_Resize xs n = take n xs @ replicate (n - length xs) None"

definition is_vector :: "Val \<Rightarrow> bool" where
  "is_vector v = (Tag (Val_Type v) = TYPE_VECTOR)"

text \<open>
  The accessors \<^verbatim>\<open>AsVectorVal\<close>, \<^verbatim>\<open>AsListVal\<close> and \<^verbatim>\<open>AsVectorType\<close> check the tag
  and cast; on another kind of value or type the outcome is not decided here.
\<close>

fun AsVectorVal :: "Val \<Rightarrow> (BroType \<times> Val option list) result" where
  "AsVectorVal (VectorVal y xs) = Inr (y, xs)"
| "AsVectorVal _ = Inl (Unspecified ''Val::AsVectorVal on a value of another kind'')"

fun AsListVal :: "Val \<Rightarrow> (Val list) result" where
  "AsListVal (ListVal vs) = Inr vs"
| "AsListVal _ = Inl (Unspecified ''Val::AsListVal on a value of another kind'')"

fun AsVectorType :: "BroType \<Rightarrow> BroType result" where
  "AsVectorType (VectorType y) = Inr y"
| "AsVectorType _ = Inl (Unspecified ''BroType::AsVectorType on a type of another kind'')"

text \<open>
  Modelled from the spec: \<^verbatim>\<open>Val::IsZero\<close> (\<^verbatim>\<open>Val.cc\<close> is not among the sources): a
  value is "falsy (zero)" (section 4.6) when its numeric payload is zero; a value that
  is not numeric is not zero.
\<close>

fun IsZero :: "Val \<Rightarrow> bool" where
  "IsZero (ScalarVal t w) =
     (if InternalType_of_tag t = TYPE_INTERNAL_INT \<or> InternalType_of_tag t = TYPE_INTERNAL_UNSIGNED
      then w = 0
      else if InternalType_of_tag t = TYPE_INTERNAL_DOUBLE then d_is_zero w
      else False)"
| "IsZero _ = False"

subsection \<open>The loops over the cells of a vector\<close>

text \<open>
  The loop of \<^verbatim>\<open>BinaryExpr::Eval\<close> that folds pairs of elements:
  \<^verbatim>\<open>for ( unsigned int i = 0; i < v_op1->Size(); ++i )\<close>. \<open>F\<close> is the \<^verbatim>\<open>Fold\<close> of the
  node; \<open>res\<close> is \<^verbatim>\<open>v_result\<close>.
\<close>

function fold_pairs ::
  "(Val \<Rightarrow> Val \<Rightarrow> Val result) \<Rightarrow> Val option list \<Rightarrow> Val option list \<Rightarrow> nat \<Rightarrow> Val option list
     \<Rightarrow> (Val option list) result" where
  "fold_pairs F v_op1 v_op2 i res =
     (if i < length v_op1 then
        (case (VectorVal_Lookup v_op1 i, VectorVal_Lookup v_op2 i) of
           (Some x, Some y) \<Rightarrow>
             (case F x y of
                Inl e \<Rightarrow> Inl e
              | Inr r \<Rightarrow> fold_pairs F v_op1 v_op2 (i + 1) (VectorVal_Assign res i (Some r)))
         | _ \<Rightarrow> fold_pairs F v_op1 v_op2 (i + 1) (VectorVal_Assign res i None))
      else Inr res)"
  by pat_completeness auto
termination
  by (relation "measure (\<lambda>(F, v_op1, v_op2, i, res). length v_op1 - i)") auto

text \<open>
  The loops that apply a function of one element to each defined cell: the fold of a
  vector against a scalar in \<^verbatim>\<open>BinaryExpr::Eval\<close>, and the loops of
  \<^verbatim>\<open>UnaryExpr::Eval\<close> and \<^verbatim>\<open>IncrExpr::Eval\<close>.
\<close>

function fold_cells ::
  "(Val \<Rightarrow> Val result) \<Rightarrow> Val option list \<Rightarrow> nat \<Rightarrow> Val option list \<Rightarrow> (Val option list) result" where
  "fold_cells F vv i res =
     (if i < length vv then
        (case VectorVal_Lookup vv i of
           Some x \<Rightarrow>
             (case F x of
                Inl e \<Rightarrow> Inl e
              | Inr r \<Rightarrow> fold_cells F vv (i + 1) (VectorVal_Assign res i (Some r)))
         | None \<Rightarrow> fold_cells F vv (i + 1) (VectorVal_Assign res i None))
      else Inr res)"
  by pat_completeness auto
termination
  by (relation "measure (\<lambda>(F, vv, i, res). length vv - i)") auto

text \<open>The loop of \<^verbatim>\<open>BoolExpr::Eval\<close> over two vectors.\<close>

function bool_pairs ::
  "BroExprTag \<Rightarrow> Val option list \<Rightarrow> Val option list \<Rightarrow> nat \<Rightarrow> Val option list \<Rightarrow> Val option list" where
  "bool_pairs tag vec_v1 vec_v2 i res =
     (if i < length vec_v1 then
        (case (VectorVal_Lookup vec_v1 i, VectorVal_Lookup vec_v2 i) of
           (Some op1, Some op2) \<Rightarrow>
             (let local_result =
                    (if tag = EXPR_AND_AND then \<not> IsZero op1 \<and> \<not> IsZero op2
                     else \<not> IsZero op1 \<or> \<not> IsZero op2)
              in bool_pairs tag vec_v1 vec_v2 (i + 1)
                   (VectorVal_Assign res i (Some (GetBool local_result))))
         | _ \<Rightarrow> bool_pairs tag vec_v1 vec_v2 (i + 1) (VectorVal_Assign res i None))
      else res)"
  by pat_completeness auto
termination
  by (relation "measure (\<lambda>(tag, vec_v1, vec_v2, i, res). length vec_v1 - i)") auto

text \<open>The loop of \<^verbatim>\<open>CondExpr::Eval\<close> over three vectors.\<close>

function cond_cells ::
  "Val option list \<Rightarrow> Val option list \<Rightarrow> Val option list \<Rightarrow> nat \<Rightarrow> Val option list \<Rightarrow> Val option list" where
  "cond_cells cond a b i res =
     (if i < length cond then
        (case VectorVal_Lookup cond i of
           Some local_cond \<Rightarrow>
             cond_cells cond a b (i + 1)
               (VectorVal_Assign res i
                  (if IsZero local_cond then VectorVal_Lookup b i else VectorVal_Lookup a i))
         | None \<Rightarrow> cond_cells cond a b (i + 1) (VectorVal_Assign res i None))
      else res)"
  by pat_completeness auto
termination
  by (relation "measure (\<lambda>(cond, a, b, i, res). length cond - i)") auto


section \<open>Indexing\<close>

text \<open>
  The accessors \<^verbatim>\<open>AsBool\<close> and \<^verbatim>\<open>AsInt\<close> of a value of that type, and the element
  \<^verbatim>\<open>Index(i)\<close> of a list value; on anything else the outcome is not decided here.
\<close>

fun AsBool :: "Val \<Rightarrow> bool result" where
  "AsBool (ScalarVal t w) =
     (if t = TYPE_BOOL then Inr (w \<noteq> 0)
      else Inl (Unspecified ''Val::AsBool on a value of another type''))"
| "AsBool _ = Inl (Unspecified ''Val::AsBool on a value of another type'')"

fun AsInt :: "Val \<Rightarrow> (64 word) result" where
  "AsInt (ScalarVal t w) =
     (if t = TYPE_INT then Inr w
      else Inl (Unspecified ''Val::AsInt on a value of another type''))"
| "AsInt _ = Inl (Unspecified ''Val::AsInt on a value of another type'')"

definition ListVal_Index :: "Val list \<Rightarrow> nat \<Rightarrow> Val result" where
  "ListVal_Index vs i =
     (if i < length vs then Inr (vs ! i)
      else Inl (Unspecified ''ListVal::Index beyond the end of the list''))"

text \<open>
  \<^verbatim>\<open>VectorVal::Lookup\<close> takes an \<^verbatim>\<open>unsigned int\<close>: an index that arrives as a
  \<^verbatim>\<open>bro_int_t\<close> is converted, which keeps its low 32 bits.
\<close>

definition Lookup_at :: "Val option list \<Rightarrow> 64 word \<Rightarrow> Val option" where
  "Lookup_at xs k = VectorVal_Lookup xs (unat (ucast k :: 32 word))"

text \<open>
  The loop of \<^verbatim>\<open>IndexExpr::Eval\<close> for an index vector of booleans:
  \<^verbatim>\<open>if ( v_v2->Lookup(i)->AsBool() )
      v_result->Assign(v_result->Size() + 1, v_v1->Lookup(i));\<close>
\<close>

function index_by_bools ::
  "Val option list \<Rightarrow> Val option list \<Rightarrow> nat \<Rightarrow> Val option list \<Rightarrow> (Val option list) result" where
  "index_by_bools v_v1 v_v2 i v_result =
     (if i < length v_v2 then
        (case VectorVal_Lookup v_v2 i of
           None \<Rightarrow> Inl (NullPointer ''v_v2->Lookup(i)->AsBool()'')
         | Some b \<Rightarrow>
             (case AsBool b of
                Inl e \<Rightarrow> Inl e
              | Inr sel \<Rightarrow>
                  index_by_bools v_v1 v_v2 (i + 1)
                    (if sel
                     then VectorVal_Assign v_result (length v_result + 1) (VectorVal_Lookup v_v1 i)
                     else v_result)))
      else Inr v_result)"
  by pat_completeness auto
termination
  by (relation "measure (\<lambda>(v_v1, v_v2, i, v_result). length v_v2 - i)") auto

text \<open>
  The loop for an index vector of integers:
  \<^verbatim>\<open>v_result->Assign(i, v_v1->Lookup(v_v2->Lookup(i)->CoerceToInt()));\<close>
\<close>

function index_by_ints ::
  "Val option list \<Rightarrow> Val option list \<Rightarrow> nat \<Rightarrow> Val option list \<Rightarrow> (Val option list) result" where
  "index_by_ints v_v1 v_v2 i v_result =
     (if i < length v_v2 then
        (case VectorVal_Lookup v_v2 i of
           None \<Rightarrow> Inl (NullPointer ''v_v2->Lookup(i)->CoerceToInt()'')
         | Some x \<Rightarrow>
             (case CoerceToInt x of
                Inl e \<Rightarrow> Inl e
              | Inr k \<Rightarrow>
                  index_by_ints v_v1 v_v2 (i + 1)
                    (VectorVal_Assign v_result i (Lookup_at v_v1 k))))
      else Inr v_result)"
  by pat_completeness auto
termination
  by (relation "measure (\<lambda>(v_v1, v_v2, i, v_result). length v_v2 - i)") auto

text \<open>
  The loop of the slice of a vector in \<^verbatim>\<open>IndexExpr::Fold\<close>:
  \<^verbatim>\<open>for ( int idx = first; idx < last; idx++ )
      result->Assign(idx - first, vect->Lookup(idx)->Ref());\<close>
  on the signed values of \<^verbatim>\<open>first\<close>, \<^verbatim>\<open>last\<close> and \<^verbatim>\<open>idx\<close> (\<open>first_i\<close> and
  \<open>last_i\<close> below).
\<close>

function slice_cells ::
  "Val option list \<Rightarrow> int \<Rightarrow> int \<Rightarrow> int \<Rightarrow> Val option list \<Rightarrow> (Val option list) result" where
  "slice_cells vect first_i last_i idx result =
     (if idx < last_i then
        (case (if 0 \<le> idx then VectorVal_Lookup vect (nat idx) else None) of
           None \<Rightarrow> Inl (NullPointer ''vect->Lookup(idx)->Ref()'')
         | Some x \<Rightarrow>
             slice_cells vect first_i last_i (idx + 1)
               (VectorVal_Assign result (nat (idx - first_i)) (Some x)))
      else Inr result)"
  by pat_completeness auto
termination
  by (relation "measure (\<lambda>(vect, first_i, last_i, idx, result). nat (last_i - idx))") auto

text \<open>
  Modelled from the spec: \<^verbatim>\<open>BroString::GetSubstring\<close> (\<^verbatim>\<open>BroString.cc\<close> is not among
  the sources): the substring of a given start and length, cut at the end of the
  string; the null pointer when the start is out of range, as the comment at its call
  in \<^verbatim>\<open>IndexExpr::Fold\<close> says.
\<close>

definition GetSubstring :: "string \<Rightarrow> int \<Rightarrow> int \<Rightarrow> string option" where
  "GetSubstring s start len =
     (if start < 0 \<or> int (length s) < start then None
      else Some (take (if len < 0 then length s else nat len) (drop (nat start) s)))"

definition string_or_empty :: "string option \<Rightarrow> Val" where
  "string_or_empty substring = StringVal (case substring of Some sub \<Rightarrow> sub | None \<Rightarrow> [])"

text \<open>
  The two endpoints of a slice, \<^verbatim>\<open>get_slice_index(lv->Index(0)->..., len)\<close> and
  \<^verbatim>\<open>get_slice_index(lv->Index(1)->..., len)\<close>, as signed values; \<open>acc\<close> is the accessor
  of the index values (\<^verbatim>\<open>CoerceToInt\<close> for a vector, \<^verbatim>\<open>AsInt\<close> for a string).
\<close>

definition slice_endpoints ::
  "(Val \<Rightarrow> (64 word) result) \<Rightarrow> Val list \<Rightarrow> nat \<Rightarrow> (int \<times> int) result" where
  "slice_endpoints acc lv n =
     (case ListVal_Index lv 0 of
        Inl e \<Rightarrow> Inl e
      | Inr i0 \<Rightarrow>
          (case acc i0 of
             Inl e \<Rightarrow> Inl e
           | Inr k0 \<Rightarrow>
               (case ListVal_Index lv 1 of
                  Inl e \<Rightarrow> Inl e
                | Inr i1 \<Rightarrow>
                    (case acc i1 of
                       Inl e \<Rightarrow> Inl e
                     | Inr k1 \<Rightarrow>
                         (let len = (word_of_nat n :: 32 word)
                          in Inr (sint (slice_endpoint k0 len), sint (slice_endpoint k1 len)))))))"

text \<open>
  The conversion of a \<^verbatim>\<open>bro_int_t\<close> to \<^verbatim>\<open>int\<close>, on the signed values: it keeps the low
  32 bits. \<^verbatim>\<open>int sub_length = last - first\<close>, \<^verbatim>\<open>int substring_len = last - first\<close> and
  the first argument of \<^verbatim>\<open>GetSubstring(int, int)\<close> go through it.
\<close>

definition to_int :: "int \<Rightarrow> int" where
  "to_int k = sint (word_of_int k :: 32 word)"

text \<open>
  \<^verbatim>\<open>IndexExpr::Fold\<close>; \<open>type\<close> is the type of the node. The case \<^verbatim>\<open>TYPE_TABLE\<close> is
  taken by values that are not embedded. The result \<open>None\<close> is the null pointer.
\<close>

definition IndexExpr_Fold :: "BroType \<Rightarrow> Val \<Rightarrow> Val \<Rightarrow> (Val option) result" where
  "IndexExpr_Fold type v1 v2 =
     (if Tag type = TYPE_ERROR then Inr None
      else
        (case v1 of
           VectorVal y vect \<Rightarrow>
             (case AsListVal v2 of
                Inl e \<Rightarrow> Inl e
              | Inr lv \<Rightarrow>
                  if length lv = 1 then
                    (case CoerceToInt (hd lv) of
                       Inl e \<Rightarrow> Inl e
                     | Inr k \<Rightarrow>
                         (case Lookup_at vect k of
                            Some v \<Rightarrow> Inr (Some v)
                          | None \<Rightarrow> Inl (RuntimeError ''no such index'')))
                  else
                    (case slice_endpoints CoerceToInt lv (length vect) of
                       Inl e \<Rightarrow> Inl e
                     | Inr (first_i, last_i) \<Rightarrow>
                         (let sub_length = to_int (last_i - first_i)
                          in if 0 \<le> sub_length then
                               (case slice_cells vect first_i last_i first_i
                                       (VectorVal_Resize [] (nat sub_length)) of
                                  Inl e \<Rightarrow> Inl e
                                | Inr r \<Rightarrow> Inr (Some (VectorVal y r)))
                             else Inr (Some (VectorVal y [])))))
         | StringVal s \<Rightarrow>
             (case AsListVal v2 of
                Inl e \<Rightarrow> Inl e
              | Inr lv \<Rightarrow>
                  if length lv = 1 then
                    (case AsInt (hd lv) of
                       Inl e \<Rightarrow> Inl e
                     | Inr k \<Rightarrow>
                         (let idx = (if k <s 0 then k + word_of_nat (length s) else k)
                          in Inr (Some (string_or_empty (GetSubstring s (to_int (sint idx)) 1)))))
                  else
                    (case slice_endpoints AsInt lv (length s) of
                       Inl e \<Rightarrow> Inl e
                     | Inr (first_i, last_i) \<Rightarrow>
                         (let substring_len = to_int (last_i - first_i)
                          in Inr (Some (string_or_empty
                               (if substring_len < 0 then None
                                else GetSubstring s first_i substring_len))))))
         | _ \<Rightarrow> Inl (RuntimeError ''type cannot be indexed'')))"

section \<open>Expression nodes\<close>

text \<open>
  Modelled from the spec: the evaluation context (\<^verbatim>\<open>Frame.h\<close>, \<^verbatim>\<open>ID.h\<close> and
  \<^verbatim>\<open>Event.h\<close> are not among the sources). Section 6 asks of it
  \<^verbatim>\<open>lookup(identifier) -> Value|null\<close> and \<^verbatim>\<open>assign(identifier, Value)\<close>, and of the event
  queue \<^verbatim>\<open>enqueue(eventHandlerIdentity, argumentValues)\<close>. An identifier is global or
  local to the frame; the frame pointer \<^verbatim>\<open>f\<close> may be null (\<open>frame = None\<close>), which is
  how \<^verbatim>\<open>Expr::InitVal\<close> and the attribute expressions call \<^verbatim>\<open>Eval(0)\<close>. Identifiers
  that name a type are not embedded.
\<close>

record ID =
  Name :: string
  IsGlobal :: bool

record State =
  globals :: "(string \<times> Val) list"
  frame :: "(string \<times> Val) list option"
  queued :: "(string \<times> Val list) list"

definition SetElement :: "(string \<times> Val) list \<Rightarrow> string \<Rightarrow> Val \<Rightarrow> (string \<times> Val) list" where
  "SetElement f n v = (n, v) # filter (\<lambda>p. fst p \<noteq> n) f"

definition QueueEvent :: "string \<Rightarrow> Val list \<Rightarrow> State \<Rightarrow> State" where
  "QueueEvent handler vl s = s\<lparr>queued := queued s @ [(handler, vl)]\<rparr>"

text \<open>
  The expression kinds that are embedded, each with the fields of its class: the type
  of the node (\<^verbatim>\<open>Expr::type\<close>; the error flag is the type \<^verbatim>\<open>TYPE_ERROR\<close>), its tag where
  the class serves several, and its operands.
  \<^item> \<open>UnaryExpr\<close> stands for the classes that are evaluated by \<^verbatim>\<open>UnaryExpr::Eval\<close> and
    differ in \<^verbatim>\<open>Fold\<close>: \<^verbatim>\<open>NotExpr\<close>, \<^verbatim>\<open>ComplementExpr\<close> and \<^verbatim>\<open>RefExpr\<close>;
  \<^item> \<open>BinaryExpr\<close> stands for the classes evaluated by \<^verbatim>\<open>BinaryExpr::Eval\<close> with
    \<^verbatim>\<open>BinaryExpr::Fold\<close>: \<^verbatim>\<open>AddExpr\<close>, \<^verbatim>\<open>SubExpr\<close>, \<^verbatim>\<open>TimesExpr\<close>, \<^verbatim>\<open>DivideExpr\<close>,
    \<^verbatim>\<open>ModExpr\<close>, \<^verbatim>\<open>BitExpr\<close>, \<^verbatim>\<open>EqExpr\<close> and \<^verbatim>\<open>RelExpr\<close>;
  \<^item> \<open>AssignExpr\<close> carries \<^verbatim>\<open>is_init\<close> and \<^verbatim>\<open>val\<close>, \<open>IndexExpr\<close> carries \<^verbatim>\<open>is_slice\<close>;
  \<^item> \<open>EventExpr\<close> carries the name of its handler and the expressions of its argument
    list (\<^verbatim>\<open>args->Exprs()\<close>).
\<close>

datatype Expr =
    NameExpr ID BroType
  | ConstExpr Val
  | UnaryExpr BroExprTag BroType Expr
  | IncrExpr BroExprTag BroType Expr
  | BinaryExpr BroExprTag BroType Expr Expr
  | BoolExpr BroExprTag BroType Expr Expr
  | CondExpr BroType Expr Expr Expr
  | AssignExpr BroType Expr Expr bool "Val option"
  | IndexExpr BroType Expr Expr bool
  | ListExpr BroType "Expr list"
  | EventExpr BroType string "Expr list"

fun Type :: "Expr \<Rightarrow> BroType" where
  "Type (NameExpr _ ty) = ty"
| "Type (ConstExpr v) = Val_Type v"
| "Type (UnaryExpr _ ty _) = ty"
| "Type (IncrExpr _ ty _) = ty"
| "Type (BinaryExpr _ ty _ _) = ty"
| "Type (BoolExpr _ ty _ _) = ty"
| "Type (CondExpr ty _ _ _) = ty"
| "Type (AssignExpr ty _ _ _ _) = ty"
| "Type (IndexExpr ty _ _ _) = ty"
| "Type (ListExpr ty _) = ty"
| "Type (EventExpr ty _ _) = ty"

text \<open>
  Modelled from the spec: \<^verbatim>\<open>Expr::IsError\<close> and \<^verbatim>\<open>Expr::SetError()\<close> (\<^verbatim>\<open>Expr.h\<close> is not
  among the sources): the error flag of section 3. \<^verbatim>\<open>Expr::SetType\<close>, which is among
  them, keeps a type whose tag is \<^verbatim>\<open>TYPE_ERROR\<close>, so the flag is that tag, and setting
  it is \<^verbatim>\<open>SetType\<close> of the error type.
\<close>

definition IsError :: "Expr \<Rightarrow> bool" where
  "IsError e = (Tag (Type e) = TYPE_ERROR)"

text \<open>
  \<^verbatim>\<open>Expr::SetType(BroType* t)\<close>: the first argument is the field \<^verbatim>\<open>type\<close> as it stands,
  \<open>None\<close> for the null pointer it is initialised to; the result is the field
  afterwards, which is not null.
\<close>

definition SetType :: "BroType option \<Rightarrow> BroType \<Rightarrow> BroType" where
  "SetType type t =
     (case type of
        None \<Rightarrow> t
      | Some old \<Rightarrow> if Tag old \<noteq> TYPE_ERROR then t else old)"

definition SetError :: "BroType option \<Rightarrow> BroType" where
  "SetError type = SetType type (BaseType TYPE_ERROR)"

text \<open>\<^verbatim>\<open>is_vector(Expr* e)\<close>; \<open>is_vector\<close> above is \<^verbatim>\<open>is_vector(Val* v)\<close>.\<close>

definition is_vector_expr :: "Expr \<Rightarrow> bool" where
  "is_vector_expr e = (Tag (Type e) = TYPE_VECTOR)"

section \<open>Assignment to an lvalue\<close>

text \<open>
  \<^verbatim>\<open>NameExpr::Assign\<close>, \<^verbatim>\<open>RefExpr::Assign\<close>, \<^verbatim>\<open>ListExpr::Assign\<close> and the default
  \<^verbatim>\<open>Expr::Assign\<close>. \<^verbatim>\<open>IndexExpr::Assign\<close> changes a container in place, which values
  without identity do not express; its outcome is not decided here.
\<close>

fun Assign :: "Expr \<Rightarrow> Val \<Rightarrow> State \<Rightarrow> State result"
and Assign_each :: "Expr list \<Rightarrow> Val list \<Rightarrow> State \<Rightarrow> State result" where
  "Assign (NameExpr ident ty) v s =
     (if IsGlobal ident then Inr (s\<lparr>globals := SetElement (globals s) (Name ident) v\<rparr>)
      else
        (case frame s of
           None \<Rightarrow> Inl (NullPointer ''f->SetElement(id, v)'')
         | Some f \<Rightarrow> Inr (s\<lparr>frame := Some (SetElement f (Name ident) v)\<rparr>)))"
| "Assign (UnaryExpr tag ty op) v s =
     (if tag = EXPR_REF then Assign op v s else Inl (InternalError ''Expr::Assign called''))"
| "Assign (ListExpr ty exprs) v s =
     (case AsListVal v of
        Inl e \<Rightarrow> Inl e
      | Inr lv \<Rightarrow>
          if length exprs \<noteq> length lv then Inl (RuntimeError ''mismatch in list lengths'')
          else Assign_each exprs lv s)"
| "Assign (IndexExpr ty op1 op2 is_slice) v s =
     Inl (Unspecified ''IndexExpr::Assign changes a container in place'')"
| "Assign (ConstExpr c) v s = Inl (InternalError ''Expr::Assign called'')"
| "Assign (IncrExpr tag ty op) v s = Inl (InternalError ''Expr::Assign called'')"
| "Assign (BinaryExpr tag ty op1 op2) v s = Inl (InternalError ''Expr::Assign called'')"
| "Assign (BoolExpr tag ty op1 op2) v s = Inl (InternalError ''Expr::Assign called'')"
| "Assign (CondExpr ty op1 op2 op3) v s = Inl (InternalError ''Expr::Assign called'')"
| "Assign (AssignExpr ty op1 op2 is_init val) v s = Inl (InternalError ''Expr::Assign called'')"
| "Assign (EventExpr ty name args) v s = Inl (InternalError ''Expr::Assign called'')"
| "Assign_each (e # es) (v # vs) s =
     (case Assign e v s of Inl x \<Rightarrow> Inl x | Inr s1 \<Rightarrow> Assign_each es vs s1)"
| "Assign_each _ _ s = Inr s"

section \<open>Eval\<close>

text \<open>
  \<^verbatim>\<open>UnaryExpr::Fold\<close> and its overrides \<^verbatim>\<open>NotExpr::Fold\<close> and \<^verbatim>\<open>ComplementExpr::Fold\<close>,
  chosen by the tag of the node.
\<close>

definition UnaryExpr_Fold :: "BroExprTag \<Rightarrow> Val \<Rightarrow> Val result" where
  "UnaryExpr_Fold tag v =
     (case tag of
        EXPR_REF \<Rightarrow> Inr v
      | EXPR_NOT \<Rightarrow>
          (case payload TYPE_INTERNAL_INT v of
             Inl e \<Rightarrow> Inl e
           | Inr w \<Rightarrow> Inr (GetBool (w = 0)))
      | EXPR_COMPLEMENT \<Rightarrow>
          (case payload TYPE_INTERNAL_UNSIGNED v of
             Inl e \<Rightarrow> Inl e
           | Inr w \<Rightarrow> Inr (GetCount (NOT w)))
      | _ \<Rightarrow> Inl (Unspecified ''Fold of a unary expression that is not embedded''))"

text \<open>
  Modelled from the spec: \<^verbatim>\<open>VectorVal::AssignRepeat(index, how_many, element)\<close>
  (\<^verbatim>\<open>Val.cc\<close> is not among the sources): the element is assigned to \<open>how_many\<close> cells
  from \<open>index\<close> on.
\<close>

definition VectorVal_AssignRepeat ::
  "Val option list \<Rightarrow> nat \<Rightarrow> nat \<Rightarrow> Val option \<Rightarrow> Val option list" where
  "VectorVal_AssignRepeat xs index how_many e =
     foldl (\<lambda>r i. VectorVal_Assign r i e) xs [index ..< index + how_many]"

text \<open>
  \<^verbatim>\<open>Expr::Eval(Frame* f)\<close> for each embedded class, \<^verbatim>\<open>BoolExpr::DoSingleEval\<close>, the loop
  of \<^verbatim>\<open>ListExpr::Eval\<close> and \<^verbatim>\<open>eval_list\<close>. The result of \<open>Eval\<close> is the \<^verbatim>\<open>Val*\<close>
  returned, \<open>None\<close> for null, with the state the evaluation leaves; \<open>Inl\<close> is an abort.
  The frame pointer is part of the state. Reference counts are not embedded.
\<close>

fun Eval :: "fp_ops \<Rightarrow> Expr \<Rightarrow> State \<Rightarrow> (Val option \<times> State) result"
and BoolExpr_DoSingleEval ::
  "fp_ops \<Rightarrow> BroExprTag \<Rightarrow> Val option \<Rightarrow> Expr \<Rightarrow> State \<Rightarrow> (Val option \<times> State) result"
and ListExpr_Eval :: "fp_ops \<Rightarrow> Expr list \<Rightarrow> State \<Rightarrow> (Val list \<times> State) result"
and eval_list :: "fp_ops \<Rightarrow> Expr list \<Rightarrow> State \<Rightarrow> (Val list option \<times> State) result" where
  "Eval fp (NameExpr ident ty) s =
     (if IsGlobal ident then
        (case map_of (globals s) (Name ident) of
           Some v \<Rightarrow> Inr (Some v, s)
         | None \<Rightarrow> Inl (RuntimeError ''value used but not set''))
      else
        (case frame s of
           Some f \<Rightarrow>
             (case map_of f (Name ident) of
                Some v \<Rightarrow> Inr (Some v, s)
              | None \<Rightarrow> Inl (RuntimeError ''value used but not set''))
         | None \<Rightarrow> Inr (None, s)))"
| "Eval fp (ConstExpr val) s = Inr (Some val, s)"
| "Eval fp (UnaryExpr tag ty op) s =
     (if Tag ty = TYPE_ERROR then Inr (None, s)
      else
        (case Eval fp op s of
           Inl e \<Rightarrow> Inl e
         | Inr (None, s1) \<Rightarrow> Inr (None, s1)
         | Inr (Some v, s1) \<Rightarrow>
             if is_vector v then
               (case AsVectorVal v of
                  Inl e \<Rightarrow> Inl e
                | Inr (y, v_op) \<Rightarrow>
                    (case (if Tag ty = TYPE_ANY then Inr y else AsVectorType ty) of
                       Inl e \<Rightarrow> Inl e
                     | Inr out_y \<Rightarrow>
                         (case fold_cells (UnaryExpr_Fold tag) v_op 0 [] of
                            Inl e \<Rightarrow> Inl e
                          | Inr r \<Rightarrow> Inr (Some (VectorVal out_y r), s1))))
             else
               (case UnaryExpr_Fold tag v of
                  Inl e \<Rightarrow> Inl e
                | Inr r \<Rightarrow> Inr (Some r, s1))))"
| "Eval fp (IncrExpr tag ty op) s =
     (case Eval fp op s of
        Inl e \<Rightarrow> Inl e
      | Inr (None, s1) \<Rightarrow> Inr (None, s1)
      | Inr (Some v, s1) \<Rightarrow>
          if is_vector v then
            (case AsVectorVal v of
               Inl e \<Rightarrow> Inl e
             | Inr (y, v_vec) \<Rightarrow>
                 (case fold_cells (IncrExpr_DoSingleEval tag ty) v_vec 0 v_vec of
                    Inl e \<Rightarrow> Inl e
                  | Inr r \<Rightarrow>
                      (case Assign op (VectorVal y r) s1 of
                         Inl e \<Rightarrow> Inl e
                       | Inr s2 \<Rightarrow> Inr (Some (VectorVal y r), s2))))
          else
            (case IncrExpr_DoSingleEval tag ty v of
               Inl e \<Rightarrow> Inl e
             | Inr v' \<Rightarrow>
                 (case Assign op v' s1 of
                    Inl e \<Rightarrow> Inl e
                  | Inr s2 \<Rightarrow> Inr (Some v', s2))))"
| "Eval fp (BinaryExpr tag ty op1 op2) s =
     (if Tag ty = TYPE_ERROR then Inr (None, s)
      else
        (case Eval fp op1 s of
           Inl e \<Rightarrow> Inl e
         | Inr (None, s1) \<Rightarrow> Inr (None, s1)
         | Inr (Some v1, s1) \<Rightarrow>
             (case Eval fp op2 s1 of
                Inl e \<Rightarrow> Inl e
              | Inr (None, s2) \<Rightarrow> Inr (None, s2)
              | Inr (Some v2, s2) \<Rightarrow>
                  if is_vector v1 \<and> is_vector v2 then
                    (case AsVectorVal v1 of
                       Inl e \<Rightarrow> Inl e
                     | Inr (y1, v_op1) \<Rightarrow>
                         (case AsVectorVal v2 of
                            Inl e \<Rightarrow> Inl e
                          | Inr (y2, v_op2) \<Rightarrow>
                              if length v_op1 \<noteq> length v_op2
                              then Inl (RuntimeError ''vector operands are of different sizes'')
                              else
                                (case AsVectorType ty of
                                   Inl e \<Rightarrow> Inl e
                                 | Inr y \<Rightarrow>
                                     (case fold_pairs (Fold fp tag ty) v_op1 v_op2 0 [] of
                                        Inl e \<Rightarrow> Inl e
                                      | Inr r \<Rightarrow> Inr (Some (VectorVal y r), s2)))))
                  else if IsVector (Tag ty) \<and> (is_vector v1 \<or> is_vector v2) then
                    (case AsVectorVal (if is_vector v1 then v1 else v2) of
                       Inl e \<Rightarrow> Inl e
                     | Inr (yv, vv) \<Rightarrow>
                         (case AsVectorType ty of
                            Inl e \<Rightarrow> Inl e
                          | Inr y \<Rightarrow>
                              (case fold_cells
                                      (\<lambda>vv_i. if is_vector v1 then Fold fp tag ty vv_i v2
                                               else Fold fp tag ty v1 vv_i) vv 0 [] of
                                 Inl e \<Rightarrow> Inl e
                               | Inr r \<Rightarrow> Inr (Some (VectorVal y r), s2))))
                  else
                    (case Fold fp tag ty v1 v2 of
                       Inl e \<Rightarrow> Inl e
                     | Inr result \<Rightarrow> Inr (Some result, s2)))))"
| "Eval fp (BoolExpr tag ty op1 op2) s =
     (if Tag ty = TYPE_ERROR then Inr (None, s)
      else
        (case Eval fp op1 s of
           Inl e \<Rightarrow> Inl e
         | Inr (None, s1) \<Rightarrow> Inr (None, s1)
         | Inr (Some v1, s1) \<Rightarrow>
             if \<not> is_vector_expr op1 \<and> \<not> is_vector_expr op2 then
               BoolExpr_DoSingleEval fp tag (Some v1) op2 s1
             else if \<not> (is_vector_expr op1 \<and> is_vector_expr op2) then
               (case
                  (if is_vector_expr op1 then
                     (case Eval fp op2 s1 of
                        Inl e \<Rightarrow> Inl e
                      | Inr (scalar_v, s2) \<Rightarrow>
                          (case AsVectorVal v1 of
                             Inl e \<Rightarrow> Inl e
                           | Inr vector_v \<Rightarrow> Inr (scalar_v, vector_v, s2)))
                   else
                     (case Eval fp op2 s1 of
                        Inl e \<Rightarrow> Inl e
                      | Inr (None, s2) \<Rightarrow> Inl (NullPointer ''op2->Eval(f)->AsVectorVal()'')
                      | Inr (Some v2, s2) \<Rightarrow>
                          (case AsVectorVal v2 of
                             Inl e \<Rightarrow> Inl e
                           | Inr vector_v \<Rightarrow> Inr (Some v1, vector_v, s2))))
                of
                  Inl e \<Rightarrow> Inl e
                | Inr (None, vector_v, s2) \<Rightarrow> Inr (None, s2)
                | Inr (Some scalar_v, (yv, vector_v), s2) \<Rightarrow>
                    if IsZero scalar_v = (tag = EXPR_AND_AND) then
                      (case AsVectorType ty of
                         Inl e \<Rightarrow> Inl e
                       | Inr y \<Rightarrow>
                           Inr (Some (VectorVal y
                                  (VectorVal_AssignRepeat
                                     (VectorVal_Resize [] (length vector_v)) 0 (length vector_v)
                                     (Some scalar_v))), s2))
                    else Inr (Some (VectorVal yv vector_v), s2))
             else
               (case Eval fp op2 s1 of
                  Inl e \<Rightarrow> Inl e
                | Inr (None, s2) \<Rightarrow> Inr (None, s2)
                | Inr (Some v2, s2) \<Rightarrow>
                    (case AsVectorVal v1 of
                       Inl e \<Rightarrow> Inl e
                     | Inr (y1, vec_v1) \<Rightarrow>
                         (case AsVectorVal v2 of
                            Inl e \<Rightarrow> Inl e
                          | Inr (y2, vec_v2) \<Rightarrow>
                              if length vec_v1 \<noteq> length vec_v2
                              then Inl (RuntimeError ''vector operands have different sizes'')
                              else
                                (case AsVectorType ty of
                                   Inl e \<Rightarrow> Inl e
                                 | Inr y \<Rightarrow>
                                     Inr (Some (VectorVal y
                                            (bool_pairs tag vec_v1 vec_v2 0
                                               (VectorVal_Resize [] (length vec_v1)))), s2)))))))"
| "BoolExpr_DoSingleEval fp tag v1 op2 s =
     (case v1 of
        None \<Rightarrow> Inr (None, s)
      | Some v \<Rightarrow>
          if tag = EXPR_AND_AND then
            (if IsZero v then Inr (Some v, s) else Eval fp op2 s)
          else
            (if IsZero v then Eval fp op2 s else Inr (Some v, s)))"
| "Eval fp (CondExpr ty op1 op2 op3) s =
     (if \<not> is_vector_expr op1 then
        (case Eval fp op1 s of
           Inl e \<Rightarrow> Inl e
         | Inr (None, s1) \<Rightarrow> Inl (NullPointer ''v->IsZero()'')
         | Inr (Some v, s1) \<Rightarrow> if IsZero v then Eval fp op3 s1 else Eval fp op2 s1)
      else
        (case Eval fp op1 s of
           Inl e \<Rightarrow> Inl e
         | Inr (None, s1) \<Rightarrow> Inr (None, s1)
         | Inr (Some v1, s1) \<Rightarrow>
             (case Eval fp op2 s1 of
                Inl e \<Rightarrow> Inl e
              | Inr (None, s2) \<Rightarrow> Inr (None, s2)
              | Inr (Some v2, s2) \<Rightarrow>
                  (case Eval fp op3 s2 of
                     Inl e \<Rightarrow> Inl e
                   | Inr (None, s3) \<Rightarrow> Inr (None, s3)
                   | Inr (Some v3, s3) \<Rightarrow>
                       (case AsVectorVal v1 of
                          Inl e \<Rightarrow> Inl e
                        | Inr (yc, cond) \<Rightarrow>
                       (case AsVectorVal v2 of
                          Inl e \<Rightarrow> Inl e
                        | Inr (ya, a) \<Rightarrow>
                       (case AsVectorVal v3 of
                          Inl e \<Rightarrow> Inl e
                        | Inr (yb, b) \<Rightarrow>
                            if length cond \<noteq> length a \<or> length a \<noteq> length b
                            then Inl (RuntimeError
                                   ''vectors in conditional expression have different sizes'')
                            else
                              (case AsVectorType ty of
                                 Inl e \<Rightarrow> Inl e
                               | Inr y \<Rightarrow>
                                   Inr (Some (VectorVal y
                                          (cond_cells cond a b 0
                                             (VectorVal_Resize [] (length cond)))), s3)))))))))"
| "Eval fp (AssignExpr ty op1 op2 is_init val) s =
     (if is_init then Inl (RuntimeError ''illegal assignment in initialization'')
      else
        (case Eval fp op2 s of
           Inl e \<Rightarrow> Inl e
         | Inr (None, s1) \<Rightarrow> Inr (None, s1)
         | Inr (Some v, s1) \<Rightarrow>
             (case Assign op1 v s1 of
                Inl e \<Rightarrow> Inl e
              | Inr s2 \<Rightarrow> Inr (Some (case val of Some c \<Rightarrow> c | None \<Rightarrow> v), s2))))"
| "Eval fp (IndexExpr ty op1 op2 is_slice) s =
     (case Eval fp op1 s of
        Inl e \<Rightarrow> Inl e
      | Inr (None, s1) \<Rightarrow> Inr (None, s1)
      | Inr (Some v1, s1) \<Rightarrow>
          (case Eval fp op2 s1 of
             Inl e \<Rightarrow> Inl e
           | Inr (None, s2) \<Rightarrow> Inr (None, s2)
           | Inr (Some v2, s2) \<Rightarrow>
               (case AsListVal v2 of
                  Inl e \<Rightarrow> Inl e
                | Inr lv \<Rightarrow>
                    (case ListVal_Index lv 0 of
                       Inl e \<Rightarrow> Inl e
                     | Inr indv \<Rightarrow>
                         if is_vector indv then
                           (case AsVectorVal v1 of
                              Inl e \<Rightarrow> Inl e
                            | Inr (y1, v_v1) \<Rightarrow>
                                (case AsVectorVal indv of
                                   Inl e \<Rightarrow> Inl e
                                 | Inr (y2, v_v2) \<Rightarrow>
                                     (case AsVectorType ty of
                                        Inl e \<Rightarrow> Inl e
                                      | Inr y \<Rightarrow>
                                          if Tag y2 = TYPE_BOOL then
                                            (if length v_v1 \<noteq> length v_v2
                                             then Inl (RuntimeError
                                                    ''size mismatch, boolean index and vector'')
                                             else
                                               (case index_by_bools v_v1 v_v2 0 [] of
                                                  Inl e \<Rightarrow> Inl e
                                                | Inr r \<Rightarrow> Inr (Some (VectorVal y r), s2)))
                                          else
                                            (case index_by_ints v_v1 v_v2 0
                                                    (VectorVal_Resize [] (length v_v2)) of
                                               Inl e \<Rightarrow> Inl e
                                             | Inr r \<Rightarrow> Inr (Some (VectorVal y r), s2)))))
                         else
                           (case IndexExpr_Fold ty v1 v2 of
                              Inl e \<Rightarrow> Inl e
                            | Inr result \<Rightarrow> Inr (result, s2))))))"
| "Eval fp (ListExpr ty exprs) s =
     (case ListExpr_Eval fp exprs s of
        Inl e \<Rightarrow> Inl e
      | Inr (vs, s1) \<Rightarrow> Inr (Some (ListVal vs), s1))"
| "ListExpr_Eval fp [] s = Inr ([], s)"
| "ListExpr_Eval fp (expr # exprs) s =
     (case Eval fp expr s of
        Inl e \<Rightarrow> Inl e
      | Inr (None, s1) \<Rightarrow> Inl (RuntimeError ''uninitialized list value'')
      | Inr (Some ev, s1) \<Rightarrow>
          (case ListExpr_Eval fp exprs s1 of
             Inl e \<Rightarrow> Inl e
           | Inr (vs, s2) \<Rightarrow> Inr (ev # vs, s2)))"
| "Eval fp (EventExpr ty name args) s =
     (if Tag ty = TYPE_ERROR then Inr (None, s)
      else
        (case eval_list fp args s of
           Inl e \<Rightarrow> Inl e
         | Inr (None, s1) \<Rightarrow> Inl (NullPointer ''mgr.QueueEvent(handler, std::move(*v))'')
         | Inr (Some v, s1) \<Rightarrow> Inr (None, QueueEvent name v s1)))"
| "eval_list fp [] s = Inr (Some [], s)"
| "eval_list fp (expr # exprs) s =
     (case Eval fp expr s of
        Inl e \<Rightarrow> Inl e
      | Inr (None, s1) \<Rightarrow> Inr (None, s1)
      | Inr (Some ev, s1) \<Rightarrow>
          (case eval_list fp exprs s1 of
             Inl e \<Rightarrow> Inl e
           | Inr (None, s2) \<Rightarrow> Inr (None, s2)
           | Inr (Some v, s2) \<Rightarrow> Inr (Some (ev # v), s2)))"

section \<open>Construction of a conditional expression\<close>

text \<open>
  Modelled from the spec: the predicates on type tags and \<^verbatim>\<open>max_type\<close> (\<^verbatim>\<open>Type.h\<close> and
  \<^verbatim>\<open>Type.cc\<close> are not among the sources). The arithmetic kinds are the signed integer,
  the unsigned integers and double; "either promotes to double if mixed with double;
  signed/unsigned mixing promotes to signed integer" (section 4.2). Two types are the
  same "only by recursive structural comparison (field names, types, and attribute
  compatibility must all match)" (section 3), which is equality of the terms here.
\<close>

definition IsIntegral :: "TypeTag \<Rightarrow> bool" where
  "IsIntegral t = (t = TYPE_INT \<or> t = TYPE_COUNT \<or> t = TYPE_COUNTER)"

definition IsArithmetic :: "TypeTag \<Rightarrow> bool" where
  "IsArithmetic t = (IsIntegral t \<or> t = TYPE_DOUBLE)"

definition IsBool :: "TypeTag \<Rightarrow> bool" where
  "IsBool t = (t = TYPE_BOOL)"

definition IsRecord :: "TypeTag \<Rightarrow> bool" where
  "IsRecord t = (t = TYPE_RECORD)"

definition BothArithmetic :: "TypeTag \<Rightarrow> TypeTag \<Rightarrow> bool" where
  "BothArithmetic t1 t2 = (IsArithmetic t1 \<and> IsArithmetic t2)"

definition max_type :: "TypeTag \<Rightarrow> TypeTag \<Rightarrow> TypeTag" where
  "max_type t1 t2 =
     (if t1 = TYPE_DOUBLE \<or> t2 = TYPE_DOUBLE then TYPE_DOUBLE
      else if t1 = TYPE_INT \<or> t2 = TYPE_INT then TYPE_INT
      else TYPE_COUNT)"

definition same_type :: "BroType \<Rightarrow> BroType \<Rightarrow> bool" where
  "same_type t1 t2 = (t1 = t2)"

text \<open>
  A constructor yields the node and the diagnostics it has reported through
  \<^verbatim>\<open>Error\<close>. \<^verbatim>\<open>ExprError(msg)\<close> is \<^verbatim>\<open>Error(msg); SetError();\<close>. The field \<^verbatim>\<open>type\<close> is
  null until the first \<^verbatim>\<open>SetType\<close>.

  \<^verbatim>\<open>ArithCoerceExpr::ArithCoerceExpr(Expr* arg_op, TypeTag t)\<close>, after the constructor of
  \<^verbatim>\<open>UnaryExpr\<close>, which sets the error flag when the operand has it.
\<close>

definition ArithCoerceExpr_ctor :: "Expr \<Rightarrow> TypeTag \<Rightarrow> Expr \<times> string list" where
  "ArithCoerceExpr_ctor op t =
     (if IsError op then (UnaryExpr EXPR_ARITH_COERCE (SetError None) op, [])
      else
        (let bt = Tag (Type op);
             vbt = (if IsVector bt then Tag (YieldType (Type op)) else bt);
             type1 = SetType None (if IsVector bt then VectorType (BaseType t) else BaseType t)
         in if (bt = TYPE_ENUM) \<noteq> (t = TYPE_ENUM) then
              (UnaryExpr EXPR_ARITH_COERCE (SetError (Some type1)) op,
               [''can't convert to/from enumerated type''])
            else if \<not> IsArithmetic t \<and> \<not> IsBool t \<and> t \<noteq> TYPE_TIME \<and> t \<noteq> TYPE_INTERVAL then
              (UnaryExpr EXPR_ARITH_COERCE (SetError (Some type1)) op, [''bad coercion''])
            else if \<not> IsArithmetic bt \<and> \<not> IsBool bt \<and> \<not> IsArithmetic vbt \<and> \<not> IsBool vbt then
              (UnaryExpr EXPR_ARITH_COERCE (SetError (Some type1)) op, [''bad coercion value''])
            else (UnaryExpr EXPR_ARITH_COERCE type1 op, [])))"

text \<open>\<^verbatim>\<open>CondExpr::CondExpr(Expr* arg_op1, Expr* arg_op2, Expr* arg_op3)\<close>.\<close>

definition CondExpr_ctor :: "Expr \<Rightarrow> Expr \<Rightarrow> Expr \<Rightarrow> Expr \<times> string list" where
  "CondExpr_ctor op1 op2 op3 =
     (let bt1 = (if IsVector (Tag (Type op1)) then Tag (YieldType (Type op1))
                 else Tag (Type op1))
      in if IsError op1 \<or> IsError op2 \<or> IsError op3 then
           (CondExpr (SetError None) op1 op2 op3, [])
         else if bt1 \<noteq> TYPE_BOOL then
           (CondExpr (SetError None) op1 op2 op3, [''requires boolean conditional''])
         else
           (let bt2 = (if is_vector_expr op2 then Tag (YieldType (Type op2))
                       else Tag (Type op2));
                bt3 = (if IsVector (Tag (Type op3)) then Tag (YieldType (Type op3))
                       else Tag (Type op3))
            in if is_vector_expr op1 \<and> \<not> (is_vector_expr op2 \<and> is_vector_expr op3) then
                 (CondExpr (SetError None) op1 op2 op3,
                  [''vector conditional requires vector alternatives''])
               else if BothArithmetic bt2 bt3 then
                 (let t = max_type bt2 bt3;
                      c2 = (if bt2 \<noteq> t then ArithCoerceExpr_ctor op2 t else (op2, []));
                      c3 = (if bt3 \<noteq> t then ArithCoerceExpr_ctor op3 t else (op3, []))
                  in (CondExpr
                        (SetType None
                           (if is_vector_expr (fst c2) then VectorType (BaseType t)
                            else BaseType t))
                        op1 (fst c2) (fst c3),
                      snd c2 @ snd c3))
               else if bt2 \<noteq> bt3 then
                 (CondExpr (SetError None) op1 op2 op3, [''operands must be of the same type''])
               else if IsRecord bt2 \<and> IsRecord bt3 \<and> \<not> same_type (Type op2) (Type op3) then
                 (CondExpr (SetError None) op1 op2 op3, [''operands must be of the same type''])
               else (CondExpr (SetType None (Type op2)) op1 op2 op3, [])))"

section \<open>Record coercion\<close>

text \<open>
  Modelled from the spec: the accessors of a record type and of a field declaration
  (\<^verbatim>\<open>Type.h\<close> and \<^verbatim>\<open>Attr.h\<close> are not among the sources). A record type is its
  "ordered named+typed fields with optional default/optional attributes" (section 3):
  \<^verbatim>\<open>FieldOffset\<close> is the position of the field of a name, negative when there is none;
  \<^verbatim>\<open>FindAttr\<close> is the attribute of a tag, null when the declaration has none;
  \<^verbatim>\<open>FieldName(i)\<close>, \<^verbatim>\<open>FieldType(i)\<close> and \<^verbatim>\<open>FieldDecl(i)\<close> are \<open>td_id\<close>, \<open>td_type\<close> and the
  declaration at position \<open>i\<close>.
\<close>

fun FieldOffset :: "TypeDecl list \<Rightarrow> string \<Rightarrow> int" where
  "FieldOffset [] field = - 1"
| "FieldOffset (d # ds) field =
     (if td_id d = field then 0
      else (let k = FieldOffset ds field in if k < 0 then - 1 else k + 1))"

definition FindAttr :: "TypeDecl \<Rightarrow> attr_tag \<Rightarrow> Attr option" where
  "FindAttr d t = find (\<lambda>a. attr_Tag a = t) (td_attrs d)"

text \<open>
  \<^verbatim>\<open>record_promotion_compatible\<close>, \<^verbatim>\<open>RecordVal::CoerceTo\<close> and \<^verbatim>\<open>check_and_promote\<close> are
  not among the sources either and are parameters; the last two return null when they
  fail. \<open>NDEBUG\<close> says whether the build defines that macro, which removes each
  \<^verbatim>\<open>assert\<close>.
\<close>

record coerce_ops =
  record_promotion_compatible :: "TypeDecl list \<Rightarrow> TypeDecl list \<Rightarrow> bool"
  CoerceTo :: "Val \<Rightarrow> BroType \<Rightarrow> Val option"
  check_and_promote :: "Val \<Rightarrow> BroType \<Rightarrow> Val option"
  NDEBUG :: bool

text \<open>The two lambdas of the constructor.\<close>

definition is_arithmetic_promotable :: "BroType \<Rightarrow> BroType \<Rightarrow> bool" where
  "is_arithmetic_promotable sup_t sub_t =
     (let sup_tag = Tag sup_t; sub_tag = Tag sub_t
      in if \<not> BothArithmetic sup_tag sub_tag then False
         else if sub_tag = TYPE_DOUBLE \<and> IsIntegral sup_tag then False
         else if sub_tag = TYPE_INT \<and> sup_tag = TYPE_COUNT then False
         else True)"

fun is_record_promotable :: "coerce_ops \<Rightarrow> BroType \<Rightarrow> BroType \<Rightarrow> bool" where
  "is_record_promotable co (RecordType sup_r) (RecordType sub_r) =
     record_promotion_compatible co sup_r sub_r"
| "is_record_promotable co _ _ = False"

text \<open>The name of a field between double quotes, as \<^verbatim>\<open>fmt("\"%s\"", name)\<close> prints it.\<close>

definition quoted :: "string \<Rightarrow> string" where
  "quoted name = [CHR 0x22] @ name @ [CHR 0x22]"

text \<open>
  The node: the type and the operand of the \<^verbatim>\<open>UnaryExpr\<close>, and the fields \<^verbatim>\<open>map_size\<close>
  and \<^verbatim>\<open>map\<close>, whose entry for a field of the destination is the position of the field
  of the source it is filled from, or \<open>-1\<close>.
\<close>

record RecordCoerceExpr =
  coerce_type :: BroType
  coerce_op :: Expr
  map_size :: nat
  coerce_map :: "int list"

text \<open>
  The first loop of the constructor, over the fields of \<^verbatim>\<open>sub_r\<close> from position \<open>i\<close>
  on: the diagnostic at which it breaks, if it does, and the map as it leaves it.
\<close>

fun map_fields ::
  "coerce_ops \<Rightarrow> TypeDecl list \<Rightarrow> TypeDecl list \<Rightarrow> nat \<Rightarrow> int list \<Rightarrow> string option \<times> int list" where
  "map_fields co t_r [] i m = (None, m)"
| "map_fields co t_r (sub_d # rest) i m =
     (let t_i = FieldOffset t_r (td_id sub_d)
      in if t_i < 0 then
           (Some (''orphaned field '' @ quoted (td_id sub_d) @ '' in record coercion''), m)
         else
           (let sub_t_i = td_type sub_d;
                sup_t_i = td_type (t_r ! nat t_i)
            in if \<not> same_type sup_t_i sub_t_i \<and>
                  \<not> is_arithmetic_promotable sup_t_i sub_t_i \<and>
                  \<not> is_record_promotable co sup_t_i sub_t_i then
                 (Some (''type clash for field '' @ quoted (td_id sub_d)), m)
               else map_fields co t_r rest (i + 1) (m[nat t_i := int i])))"

text \<open>
  The second loop, over the fields of \<^verbatim>\<open>t_r\<close> and their entries of the map: the
  diagnostic at which it breaks, if it does. The warning for a mapped field that is
  deprecated goes to the reporter and changes nothing in the node.
\<close>

fun unmapped_fields :: "TypeDecl list \<Rightarrow> int list \<Rightarrow> string option" where
  "unmapped_fields (d # ds) (k # ks) =
     (if k = - 1 \<and> FindAttr d ATTR_OPTIONAL = None then
        Some (''non-optional field '' @ quoted (td_id d) @ '' missing'')
      else unmapped_fields ds ks)"
| "unmapped_fields _ _ = None"

text \<open>
  \<^verbatim>\<open>RecordCoerceExpr::RecordCoerceExpr(Expr* op, RecordType* r)\<close>, after the constructor
  of \<^verbatim>\<open>UnaryExpr\<close>: the node and the diagnostics reported. A type whose tag is
  \<^verbatim>\<open>TYPE_RECORD\<close> is cast by \<^verbatim>\<open>AsRecordType\<close>.
\<close>

definition RecordCoerceExpr_ctor ::
  "coerce_ops \<Rightarrow> Expr \<Rightarrow> BroType \<Rightarrow> (RecordCoerceExpr \<times> string list) result" where
  "RecordCoerceExpr_ctor co op r =
     (if IsError op then
        Inr (\<lparr>coerce_type = SetError None, coerce_op = op, map_size = 0, coerce_map = []\<rparr>, [])
      else
        (let type = SetType None r
         in if Tag type \<noteq> TYPE_RECORD then
              Inr (\<lparr>coerce_type = SetError (Some type), coerce_op = op, map_size = 0,
                     coerce_map = []\<rparr>,
                   [''coercion to non-record''])
            else if Tag (Type op) \<noteq> TYPE_RECORD then
              Inr (\<lparr>coerce_type = SetError (Some type), coerce_op = op, map_size = 0,
                     coerce_map = []\<rparr>,
                   [''coercion of non-record to record''])
            else
              (case (type, Type op) of
                 (RecordType t_r, RecordType sub_r) \<Rightarrow>
                   (case map_fields co t_r sub_r 0 (replicate (length t_r) (- 1)) of
                      (Some msg, m) \<Rightarrow>
                        Inr (\<lparr>coerce_type = SetError (Some type), coerce_op = op,
                               map_size = length t_r, coerce_map = m\<rparr>,
                             [msg])
                    | (None, m) \<Rightarrow>
                        (case unmapped_fields t_r m of
                           Some msg \<Rightarrow>
                             Inr (\<lparr>coerce_type = SetError (Some type), coerce_op = op,
                                    map_size = length t_r, coerce_map = m\<rparr>,
                                  [msg])
                         | None \<Rightarrow>
                             Inr (\<lparr>coerce_type = type, coerce_op = op,
                                    map_size = length t_r, coerce_map = m\<rparr>,
                                  [])))
               | _ \<Rightarrow> Inl (Unspecified ''AsRecordType on a type that is not a RecordType''))))"

text \<open>
  \<^verbatim>\<open>RecordCoerceExpr::Fold\<close>, the branch of a field of the destination that is mapped:
  \<open>d\<close> is its declaration, \<open>k\<close> its entry of the map, \<open>rv_type\<close> and \<open>rv\<close> are the
  declarations and the fields of the source value. A failed \<^verbatim>\<open>assert\<close> ends the
  process, unless the build has removed it: then the field is assigned null.
\<close>

definition mapped_field ::
  "coerce_ops \<Rightarrow> TypeDecl \<Rightarrow> int \<Rightarrow> TypeDecl list \<Rightarrow> Val option list \<Rightarrow> (Val option) result" where
  "mapped_field co d k rv_type rv =
     (if \<not> nat k < length rv \<or> \<not> nat k < length rv_type then
        Inl (Unspecified ''RecordVal::Lookup of a field that the value does not have'')
      else
        (let rhs = (case rv ! nat k of
                      Some x \<Rightarrow> Some x
                    | None \<Rightarrow>
                        (case FindAttr (rv_type ! nat k) ATTR_DEFAULT of
                           Some def \<Rightarrow> AttrExpr_Eval0 def
                         | None \<Rightarrow> None))
         in case rhs of
              None \<Rightarrow>
                if \<not> NDEBUG co \<and> FindAttr d ATTR_OPTIONAL = None then
                  Inl (InternalError ''assert(rhs || Type()->AsRecordType()->FieldDecl(i)->FindAttr(ATTR_OPTIONAL))'')
                else Inr None
            | Some x \<Rightarrow>
                (let rhs_type = Val_Type x;
                     field_type = td_type d
                 in if Tag rhs_type = TYPE_RECORD \<and> Tag field_type = TYPE_RECORD \<and>
                       \<not> same_type rhs_type field_type then
                      (case CoerceTo co x field_type of
                         Some new_val \<Rightarrow> Inr (Some new_val)
                       | None \<Rightarrow> Inr (Some x))
                    else if BothArithmetic (Tag rhs_type) (Tag field_type) \<and>
                            \<not> same_type rhs_type field_type then
                      (case check_and_promote co x field_type of
                         Some new_val \<Rightarrow> Inr (Some new_val)
                       | None \<Rightarrow> Inl (RuntimeError ''Failed type conversion''))
                    else Inr (Some x))))"

text \<open>The branch of a field that is not mapped.\<close>

definition unmapped_field :: "coerce_ops \<Rightarrow> TypeDecl \<Rightarrow> (Val option) result" where
  "unmapped_field co d =
     (case FindAttr d ATTR_DEFAULT of
        Some def \<Rightarrow>
          (case AttrExpr_Eval0 def of
             None \<Rightarrow> Inl (NullPointer ''def_val->Type()'')
           | Some def_val \<Rightarrow>
               (let def_type = Val_Type def_val;
                    field_type = td_type d
                in if Tag def_type = TYPE_RECORD \<and> Tag field_type = TYPE_RECORD \<and>
                      \<not> same_type def_type field_type then
                     (case CoerceTo co def_val field_type of
                        Some tmp \<Rightarrow> Inr (Some tmp)
                      | None \<Rightarrow> Inr (Some def_val))
                   else Inr (Some def_val)))
      | None \<Rightarrow> Inr None)"

text \<open>
  The body of the loop of \<^verbatim>\<open>RecordCoerceExpr::Fold\<close> for the field \<open>i\<close>: what is
  assigned to the field, or the abort.
\<close>

definition Fold_field ::
  "coerce_ops \<Rightarrow> RecordCoerceExpr \<Rightarrow> TypeDecl list \<Rightarrow> TypeDecl list \<Rightarrow> Val option list \<Rightarrow> nat \<Rightarrow>
     (Val option) result" where
  "Fold_field co node t_r rv_type rv i =
     (if 0 \<le> coerce_map node ! i
      then mapped_field co (t_r ! i) (coerce_map node ! i) rv_type rv
      else unmapped_field co (t_r ! i))"

text \<open>
  The loop, \<^verbatim>\<open>for ( int i = 0; i < map_size; ++i )\<close>; \<open>val\<close> holds the fields of the
  new record value, and \<^verbatim>\<open>val->Assign(i, x)\<close> sets its field \<open>i\<close>.
\<close>

function Fold_fields ::
  "coerce_ops \<Rightarrow> RecordCoerceExpr \<Rightarrow> TypeDecl list \<Rightarrow> TypeDecl list \<Rightarrow> Val option list \<Rightarrow> nat \<Rightarrow>
     Val option list \<Rightarrow> (Val option list) result" where
  "Fold_fields co node t_r rv_type rv i val =
     (if i < map_size node then
        (case Fold_field co node t_r rv_type rv i of
           Inl e \<Rightarrow> Inl e
         | Inr x \<Rightarrow> Fold_fields co node t_r rv_type rv (i + 1) (val[i := x]))
      else Inr val)"
  by pat_completeness auto
termination
  by (relation "measure (\<lambda>(co, node, t_r, rv_type, rv, i, val). map_size node - i)") auto

text \<open>
  \<^verbatim>\<open>RecordCoerceExpr::Fold(Val* v)\<close>. Modelled from the spec: a new record value
  (\<^verbatim>\<open>Val.cc\<close> is not among the sources) has one field for each declaration of its
  type; the loop assigns every one of them.
\<close>

definition RecordCoerceExpr_Fold :: "coerce_ops \<Rightarrow> RecordCoerceExpr \<Rightarrow> Val \<Rightarrow> Val result" where
  "RecordCoerceExpr_Fold co node v =
     (case (coerce_type node, v) of
        (RecordType t_r, RecordVal rv_type rv) \<Rightarrow>
          (case Fold_fields co node t_r rv_type rv 0 (replicate (length t_r) None) of
             Inl e \<Rightarrow> Inl e
           | Inr val \<Rightarrow> Inr (RecordVal t_r val))
      | (RecordType t_r, _) \<Rightarrow> Inl (Unspecified ''AsRecordVal on a value that is not a record'')
      | _ \<Rightarrow> Inl (Unspecified ''AsRecordType on a type that is not a RecordType''))"

text \<open>\<^verbatim>\<open>UnaryExpr::Eval\<close>, which the node inherits, with this \<^verbatim>\<open>Fold\<close>.\<close>

definition RecordCoerceExpr_Eval ::
  "fp_ops \<Rightarrow> coerce_ops \<Rightarrow> RecordCoerceExpr \<Rightarrow> State \<Rightarrow> (Val option \<times> State) result" where
  "RecordCoerceExpr_Eval fp co node s =
     (if Tag (coerce_type node) = TYPE_ERROR then Inr (None, s)
      else
        (case Eval fp (coerce_op node) s of
           Inl e \<Rightarrow> Inl e
         | Inr (None, s1) \<Rightarrow> Inr (None, s1)
         | Inr (Some v, s1) \<Rightarrow>
             if is_vector v then
               (case AsVectorVal v of
                  Inl e \<Rightarrow> Inl e
                | Inr (y, v_op) \<Rightarrow>
                    (case (if Tag (coerce_type node) = TYPE_ANY then Inr y
                           else AsVectorType (coerce_type node)) of
                       Inl e \<Rightarrow> Inl e
                     | Inr out_y \<Rightarrow>
                         (case fold_cells (RecordCoerceExpr_Fold co node) v_op 0 [] of
                            Inl e \<Rightarrow> Inl e
                          | Inr r \<Rightarrow> Inr (Some (VectorVal out_y r), s1))))
             else
               (case RecordCoerceExpr_Fold co node v of
                  Inl e \<Rightarrow> Inl e
                | Inr r \<Rightarrow> Inr (Some r, s1))))"

definition co_sample :: coerce_ops where
  "co_sample = \<lparr>record_promotion_compatible = (\<lambda>sup_r sub_r. False),
     CoerceTo = (\<lambda>v t. None), check_and_promote = (\<lambda>v t. None), NDEBUG = False\<rparr>"

section \<open>Construction of arithmetic expressions\<close>

text \<open>
  Modelled from the spec: the constructor of \<^verbatim>\<open>BinaryExpr\<close> (\<^verbatim>\<open>Expr.h\<close> is not among
  the sources): the error flag "propagates" (section 3), so a node is erroneous from
  the start when an operand is. \<^verbatim>\<open>BothIntegral\<close> is from \<^verbatim>\<open>Type.h\<close>. No embedded type
  is a set type, so \<^verbatim>\<open>IsSet()\<close> is false of each.
\<close>

definition BothIntegral :: "TypeTag \<Rightarrow> TypeTag \<Rightarrow> bool" where
  "BothIntegral t1 t2 = (IsIntegral t1 \<and> IsIntegral t2)"

definition IsSet :: "BroType \<Rightarrow> bool" where
  "IsSet t = False"

text \<open>
  The tag of the type of an operand, of its yield type when it is a vector:
  \<^verbatim>\<open>bt = op->Type()->Tag(); if ( IsVector(bt) ) bt = ...->YieldType()->Tag();\<close>
\<close>

definition base_tag :: "Expr \<Rightarrow> TypeTag" where
  "base_tag op =
     (if IsVector (Tag (Type op)) then Tag (YieldType (Type op)) else Tag (Type op))"

text \<open>
  \<^verbatim>\<open>BinaryExpr::PromoteOps\<close>: the two operands afterwards and the diagnostics of the
  coercions made. Its warning about mixed operands goes to the reporter and changes
  nothing in the node.
\<close>

definition PromoteOps :: "Expr \<Rightarrow> Expr \<Rightarrow> TypeTag \<Rightarrow> (Expr \<times> Expr) \<times> string list" where
  "PromoteOps op1 op2 t =
     (let bt1 = base_tag op1;
          bt2 = base_tag op2;
          c1 = (if bt1 \<noteq> t then ArithCoerceExpr_ctor op1 t else (op1, []));
          c2 = (if bt2 \<noteq> t then ArithCoerceExpr_ctor op2 t else (op2, []))
      in ((fst c1, fst c2), snd c1 @ snd c2))"

text \<open>\<^verbatim>\<open>BinaryExpr::PromoteType\<close>, on a node whose type is not set yet.\<close>

definition PromoteType ::
  "BroExprTag \<Rightarrow> Expr \<Rightarrow> Expr \<Rightarrow> TypeTag \<Rightarrow> bool \<Rightarrow> Expr \<times> string list" where
  "PromoteType tag op1 op2 t is_vec =
     (case PromoteOps op1 op2 t of
        ((p1, p2), msgs) \<Rightarrow>
          (BinaryExpr tag (SetType None (if is_vec then VectorType (BaseType t) else BaseType t))
             p1 p2,
           msgs))"

text \<open>\<^verbatim>\<open>DivideExpr::DivideExpr(Expr* arg_op1, Expr* arg_op2)\<close>.\<close>

definition DivideExpr_ctor :: "Expr \<Rightarrow> Expr \<Rightarrow> Expr \<times> string list" where
  "DivideExpr_ctor op1 op2 =
     (if IsError op1 \<or> IsError op2 then (BinaryExpr EXPR_DIVIDE (SetError None) op1 op2, [])
      else
        (let bt1 = base_tag op1;
             bt2 = base_tag op2
         in if bt1 = TYPE_INTERVAL \<or> bt2 = TYPE_INTERVAL then
              (if IsArithmetic bt1 \<or> IsArithmetic bt2 then
                 PromoteType EXPR_DIVIDE op1 op2 TYPE_INTERVAL
                   (is_vector_expr op1 \<or> is_vector_expr op2)
               else if bt1 = TYPE_INTERVAL \<and> bt2 = TYPE_INTERVAL then
                 (BinaryExpr EXPR_DIVIDE
                    (SetType None
                       (if is_vector_expr op1 \<or> is_vector_expr op2
                        then VectorType (BaseType TYPE_DOUBLE) else BaseType TYPE_DOUBLE))
                    op1 op2,
                  [])
               else
                 (BinaryExpr EXPR_DIVIDE (SetError None) op1 op2,
                  [''division of interval requires arithmetic operand'']))
            else if BothArithmetic bt1 bt2 then
              PromoteType EXPR_DIVIDE op1 op2 (max_type bt1 bt2)
                (is_vector_expr op1 \<or> is_vector_expr op2)
            else if bt1 = TYPE_ADDR \<and> \<not> is_vector_expr op2 \<and>
                    (bt2 = TYPE_COUNT \<or> bt2 = TYPE_INT) then
              (BinaryExpr EXPR_DIVIDE (SetType None (BaseType TYPE_SUBNET)) op1 op2, [])
            else
              (BinaryExpr EXPR_DIVIDE (SetError None) op1 op2,
               [''requires arithmetic operands''])))"

text \<open>\<^verbatim>\<open>ModExpr::ModExpr(Expr* arg_op1, Expr* arg_op2)\<close>.\<close>

definition ModExpr_ctor :: "Expr \<Rightarrow> Expr \<Rightarrow> Expr \<times> string list" where
  "ModExpr_ctor op1 op2 =
     (if IsError op1 \<or> IsError op2 then (BinaryExpr EXPR_MOD (SetError None) op1 op2, [])
      else
        (let bt1 = base_tag op1;
             bt2 = base_tag op2
         in if BothIntegral bt1 bt2 then
              PromoteType EXPR_MOD op1 op2 (max_type bt1 bt2)
                (is_vector_expr op1 \<or> is_vector_expr op2)
            else
              (BinaryExpr EXPR_MOD (SetError None) op1 op2, [''requires integral operands''])))"

text \<open>
  \<^verbatim>\<open>SubExpr::SubExpr(Expr* arg_op1, Expr* arg_op2)\<close>. The branch of two times sets the
  type at once, to the scalar \<^verbatim>\<open>base_type(TYPE_INTERVAL)\<close>; the branches that go through
  \<^verbatim>\<open>base_result_type\<close> make a vector type of it when an operand is a vector.
\<close>

definition SubExpr_ctor :: "Expr \<Rightarrow> Expr \<Rightarrow> Expr \<times> string list" where
  "SubExpr_ctor op1 op2 =
     (if IsError op1 \<or> IsError op2 then (BinaryExpr EXPR_SUB (SetError None) op1 op2, [])
      else
        (let t1 = Type op1;
             t2 = Type op2;
             bt1 = base_tag op1;
             bt2 = base_tag op2;
             of_base = (\<lambda>base_result_type.
               (BinaryExpr EXPR_SUB
                  (SetType None
                     (if is_vector_expr op1 \<or> is_vector_expr op2
                      then VectorType base_result_type else base_result_type))
                  op1 op2,
                []))
         in if bt1 = TYPE_TIME \<and> bt2 = TYPE_INTERVAL then of_base (BaseType bt1)
            else if bt1 = TYPE_TIME \<and> bt2 = TYPE_TIME then
              (BinaryExpr EXPR_SUB (SetType None (BaseType TYPE_INTERVAL)) op1 op2, [])
            else if bt1 = TYPE_INTERVAL \<and> bt2 = TYPE_INTERVAL then of_base (BaseType bt1)
            else if IsSet t1 \<and> IsSet t2 then
              (if same_type t1 t2 then (BinaryExpr EXPR_SUB (SetType None (Type op1)) op1 op2, [])
               else (BinaryExpr EXPR_SUB (SetError None) op1 op2,
                     [''incompatible '' @ quoted ''set'' @ '' operands'']))
            else if BothArithmetic bt1 bt2 then
              PromoteType EXPR_SUB op1 op2 (max_type bt1 bt2)
                (is_vector_expr op1 \<or> is_vector_expr op2)
            else
              (BinaryExpr EXPR_SUB (SetError None) op1 op2, [''requires arithmetic operands''])))"

text \<open>
  A member of the parameter's type, for the closed statements below; none of them
  depends on what these operations compute.
\<close>

definition fp_sample :: fp_ops where
  "fp_sample = \<lparr>dadd = (\<lambda>a b. a), dsub = (\<lambda>a b. a), dmul = (\<lambda>a b. a), ddiv = (\<lambda>a b. a),
     dlt = (\<lambda>a b. False), dle = (\<lambda>a b. False), deq = (\<lambda>a b. False)\<rparr>"

section \<open>Sample inputs\<close>

text \<open>
  A frame that holds the local count \<open>n = 0\<close>, and the null frame; the expression
  \<^verbatim>\<open>++n\<close> and the comparison \<^verbatim>\<open>0 < ++n\<close>, whose evaluation increments \<open>n\<close>.
\<close>

definition local_id :: "string \<Rightarrow> ID" where
  "local_id x = \<lparr>Name = x, IsGlobal = False\<rparr>"

definition frame_n0 :: State where
  "frame_n0 = \<lparr>globals = [], frame = Some [(''n'', GetCount 0)], queued = []\<rparr>"

definition frame_n1 :: State where
  "frame_n1 = \<lparr>globals = [], frame = Some [(''n'', GetCount 1)], queued = []\<rparr>"

definition no_frame :: State where
  "no_frame = \<lparr>globals = [], frame = None, queued = []\<rparr>"

definition incr_n :: Expr where
  "incr_n =
     IncrExpr EXPR_INCR (BaseType TYPE_COUNT)
       (UnaryExpr EXPR_REF (BaseType TYPE_COUNT) (NameExpr (local_id ''n'') (BaseType TYPE_COUNT)))"

definition zero_less_incr_n :: Expr where
  "zero_less_incr_n = BinaryExpr EXPR_LT (BaseType TYPE_BOOL) (ConstExpr (GetCount 0)) incr_n"

definition vector_of_counts :: "(64 word) option list \<Rightarrow> Val" where
  "vector_of_counts xs = VectorVal (BaseType TYPE_COUNT) (map (map_option GetCount) xs)"

definition vector_of_bools :: "bool list \<Rightarrow> Val" where
  "vector_of_bools bs = VectorVal (BaseType TYPE_BOOL) (map (\<lambda>b. Some (GetBool b)) bs)"

text \<open>
  The record value \<^verbatim>\<open>[$a = 7]\<close>, the fields \<^verbatim>\<open>a: count\<close> and \<^verbatim>\<open>b: count\<close> of a
  destination type, \<open>b\<close> with the given attributes, and the node that coerces the
  constant to that type, with its map: \<open>a\<close> filled from the field 0, \<open>b\<close> unmapped.
\<close>

definition record_a :: Val where
  "record_a = RecordVal [TypeDecl (BaseType TYPE_COUNT) ''a'' []] [Some (GetCount 7)]"

definition fields_a_b :: "Attr list \<Rightarrow> TypeDecl list" where
  "fields_a_b attrs =
     [TypeDecl (BaseType TYPE_COUNT) ''a'' [], TypeDecl (BaseType TYPE_COUNT) ''b'' attrs]"

definition coerce_record_a :: "BroType \<Rightarrow> RecordCoerceExpr" where
  "coerce_record_a type =
     \<lparr>coerce_type = type, coerce_op = ConstExpr record_a, map_size = 2, coerce_map = [0, - 1]\<rparr>"

text \<open>The least value of \<^verbatim>\<open>bro_int_t\<close>, as a value of type int.\<close>

definition least_int :: Val where
  "least_int = GetInt (- 9223372036854775808)"

text \<open>A vector of times, each given by the 64 bits of its double.\<close>

definition vector_of_times :: "(64 word) option list \<Rightarrow> Val" where
  "vector_of_times ts = VectorVal (BaseType TYPE_TIME) (map (map_option (ScalarVal TYPE_TIME)) ts)"

text \<open>The attributes of a field declared with \<^verbatim>\<open>&default = 5\<close>.\<close>

definition default_5 :: "Attr list" where
  "default_5 = [Attr ATTR_DEFAULT (Some (GetCount 5)), Attr ATTR_OPTIONAL None]"

section \<open>Division and modulo by zero\<close>

lemma Fold_scalar:
  "InternalType_of_tag t1 = it \<Longrightarrow> InternalType_of_tag t2 = it \<Longrightarrow>
   it = TYPE_INTERNAL_INT \<or> it = TYPE_INTERNAL_UNSIGNED \<or> it = TYPE_INTERNAL_DOUBLE \<Longrightarrow>
   Fold fp tag ty (ScalarVal t1 a) (ScalarVal t2 b) =
     (case Fold_switch fp tag (it = TYPE_INTERNAL_INT) (it = TYPE_INTERNAL_UNSIGNED) a b of
        Inl e \<Rightarrow> Inl e | Inr r \<Rightarrow> Inr (Fold_result ty r))"
  by (auto simp: Fold_def InternalType_def)

text \<open>
  \<^verbatim>\<open>BinaryExpr::Fold\<close> on two scalars of one numeric domain. A division whose divisor
  is zero ends in the runtime error "division by zero" in each of the three domains
  (for a double, zero of either sign), and a modulo whose divisor is zero ends in
  "modulo by zero" in the two integer domains; no value is produced. With a nonzero
  divisor the quotient or remainder is computed in the domain of the operands
  (truncating for signed integers) and handed to the end of \<open>Fold\<close>, which builds an
  int, a count or a double from it when that is the type of the expression; but the
  quotient and the remainder of the least signed integer by \<open>-1\<close> overflow.
\<close>

lemma Fold_divide_modulo:
  assumes "InternalType_of_tag t1 = it" and "InternalType_of_tag t2 = it"
  shows "(it = TYPE_INTERNAL_INT \<longrightarrow>
            Fold fp EXPR_DIVIDE ty (ScalarVal t1 a) (ScalarVal t2 b) =
              (if b = 0 then Inl (RuntimeError ''division by zero'')
               else if sint a = - (2 ^ 63) \<and> sint b = - 1 then Inl (SignedOverflow ''i1 / i2'')
               else Inr (Fold_result ty (word_of_int (sint a sdiv sint b), 0, 0))) \<and>
            Fold fp EXPR_MOD ty (ScalarVal t1 a) (ScalarVal t2 b) =
              (if b = 0 then Inl (RuntimeError ''modulo by zero'')
               else if sint a = - (2 ^ 63) \<and> sint b = - 1 then Inl (SignedOverflow ''i1 % i2'')
               else Inr (Fold_result ty (word_of_int (sint a smod sint b), 0, 0)))) \<and>
         (it = TYPE_INTERNAL_UNSIGNED \<longrightarrow>
            Fold fp EXPR_DIVIDE ty (ScalarVal t1 a) (ScalarVal t2 b) =
              (if b = 0 then Inl (RuntimeError ''division by zero'')
               else Inr (Fold_result ty (0, a div b, 0))) \<and>
            Fold fp EXPR_MOD ty (ScalarVal t1 a) (ScalarVal t2 b) =
              (if b = 0 then Inl (RuntimeError ''modulo by zero'')
               else Inr (Fold_result ty (0, a mod b, 0)))) \<and>
         (it = TYPE_INTERNAL_DOUBLE \<longrightarrow>
            Fold fp EXPR_DIVIDE ty (ScalarVal t1 a) (ScalarVal t2 b) =
              (if d_is_zero b then Inl (RuntimeError ''division by zero'')
               else Inr (Fold_result ty (0, 0, ddiv fp a b)))) \<and>
         Fold_result (BaseType TYPE_INT) (i3, u3, d3) = ScalarVal TYPE_INT i3 \<and>
         Fold_result (BaseType TYPE_COUNT) (i3, u3, d3) = ScalarVal TYPE_COUNT u3 \<and>
         Fold_result (BaseType TYPE_DOUBLE) (i3, u3, d3) = ScalarVal TYPE_DOUBLE d3"
  using assms
  by (auto simp: Fold_scalar Fold_switch_def Fold_result_def IsVector_def InternalType_def
       GetInt_def GetCount_def sdiv64_def smod64_def)

text \<open>
  The lemma at \<^verbatim>\<open>10 / 0\<close> over signed integers and at \<^verbatim>\<open>10 % 3\<close> over counts.
\<close>

lemma Fold_divide_modulo_at_10:
  "Fold fp_sample EXPR_DIVIDE (BaseType TYPE_INT) (ScalarVal TYPE_INT 10) (ScalarVal TYPE_INT 0) =
     Inl (RuntimeError ''division by zero'') \<and>
   Fold fp_sample EXPR_MOD (BaseType TYPE_COUNT) (ScalarVal TYPE_COUNT 10) (ScalarVal TYPE_COUNT 3) =
     Inr (ScalarVal TYPE_COUNT 1)"
  using Fold_divide_modulo [of TYPE_INT TYPE_INTERNAL_INT TYPE_INT fp_sample "BaseType TYPE_INT" 10 0]
    Fold_divide_modulo [of TYPE_COUNT TYPE_INTERNAL_UNSIGNED TYPE_COUNT fp_sample
      "BaseType TYPE_COUNT" 10 3 0 1 0]
  by simp

text \<open>
  Claim C2 at the quotient and the remainder of the least int by \<open>-1\<close>. The divisor is
  not zero, and the constructors of \<^verbatim>\<open>DivideExpr\<close> and \<^verbatim>\<open>ModExpr\<close> build the two nodes,
  of type int, without a diagnostic. The evaluation of either ends in the overflow of
  \<^verbatim>\<open>i1 / i2\<close> or of \<^verbatim>\<open>i1 % i2\<close>: no result is computed.
\<close>

theorem quotient_of_least_int_overflows:
  "DivideExpr_ctor (ConstExpr least_int) (ConstExpr (GetInt (- 1))) =
     (BinaryExpr EXPR_DIVIDE (BaseType TYPE_INT) (ConstExpr least_int) (ConstExpr (GetInt (- 1))),
      []) \<and>
   Eval fp_sample (fst (DivideExpr_ctor (ConstExpr least_int) (ConstExpr (GetInt (- 1)))))
     frame_n0 = Inl (SignedOverflow ''i1 / i2'') \<and>
   ModExpr_ctor (ConstExpr least_int) (ConstExpr (GetInt (- 1))) =
     (BinaryExpr EXPR_MOD (BaseType TYPE_INT) (ConstExpr least_int) (ConstExpr (GetInt (- 1))),
      []) \<and>
   Eval fp_sample (fst (ModExpr_ctor (ConstExpr least_int) (ConstExpr (GetInt (- 1)))))
     frame_n0 = Inl (SignedOverflow ''i1 % i2'')"
proof -
  have least: "sint (- 9223372036854775808 :: 64 word) = - (2 ^ 63)" by code_simp
  have nz: "(- 1 :: 64 word) \<noteq> 0" by simp
  have ctors:
    "DivideExpr_ctor (ConstExpr least_int) (ConstExpr (GetInt (- 1))) =
       (BinaryExpr EXPR_DIVIDE (BaseType TYPE_INT) (ConstExpr least_int)
          (ConstExpr (GetInt (- 1))), [])"
    "ModExpr_ctor (ConstExpr least_int) (ConstExpr (GetInt (- 1))) =
       (BinaryExpr EXPR_MOD (BaseType TYPE_INT) (ConstExpr least_int)
          (ConstExpr (GetInt (- 1))), [])"
    by (simp_all add: DivideExpr_ctor_def ModExpr_ctor_def least_int_def GetInt_def IsError_def
          base_tag_def IsVector_def BothArithmetic_def BothIntegral_def IsArithmetic_def
          IsIntegral_def max_type_def PromoteType_def PromoteOps_def SetType_def
          is_vector_expr_def)
  have folds:
    "Fold fp_sample EXPR_DIVIDE (BaseType TYPE_INT) least_int (GetInt (- 1)) =
       Inl (SignedOverflow ''i1 / i2'')"
    "Fold fp_sample EXPR_MOD (BaseType TYPE_INT) least_int (GetInt (- 1)) =
       Inl (SignedOverflow ''i1 % i2'')"
    using nz
    by (simp_all add: least_int_def GetInt_def Fold_def InternalType_def Fold_switch_def
          sdiv64_def smod64_def least)
  have vals: "\<not> is_vector least_int" "\<not> is_vector (GetInt (- 1))"
    by (simp_all add: is_vector_def least_int_def GetInt_def)
  show ?thesis by (simp add: ctors folds vals)
qed

section \<open>Signed readings of machine integers\<close>

lemma bit63_unat: "bit (k :: 64 word) 63 \<longleftrightarrow> 2 ^ 63 \<le> unat k"
proof -
  have lt: "unat k < 2 ^ 64" using unsigned_less [of k] by simp
  have "bit k 63 \<longleftrightarrow> bit (unat k) 63" by (simp add: bit_unsigned_iff)
  also have "\<dots> \<longleftrightarrow> odd (unat k div 2 ^ 63)" by (simp add: bit_iff_odd)
  also have "\<dots> \<longleftrightarrow> 2 ^ 63 \<le> unat k"
  proof (cases "2 ^ 63 \<le> unat k")
    case True
    with lt have "unat k div 2 ^ 63 = 1" by simp
    with True show ?thesis by simp
  next
    case False
    then have "unat k div 2 ^ 63 = 0" by simp
    with False show ?thesis by simp
  qed
  finally show ?thesis .
qed

lemma sless_zero_unat: "(k :: 64 word) <s 0 \<longleftrightarrow> 2 ^ 63 \<le> unat k"
proof -
  have "k <s 0 \<longleftrightarrow> sint k < 0" by (simp add: word_sless_alt)
  also have "\<dots> \<longleftrightarrow> bit k 63" using bit_last_iff [of k] by simp
  finally show ?thesis by (simp add: bit63_unat)
qed

lemma unat_minus1: "unat ((u :: 64 word) - 1) = (if u = 0 then 2 ^ 64 - 1 else unat u - 1)"
proof (cases "u = 0")
  case True
  have "unat (- 1 :: 64 word) = 2 ^ 64 - 1"
    by (simp add: unsigned_minus_1_eq_mask mask_eq_exp_minus_1)
  with True show ?thesis by simp
next
  case False
  then show ?thesis by (simp add: unat_minus_one)
qed

lemma decr_sign: "((u :: 64 word) - 1) <s 0 \<longleftrightarrow> u = 0 \<or> 2 ^ 63 < unat u"
  by (auto simp: sless_zero_unat unat_minus1)

lemma sint32_range: "- (2 ^ 31) \<le> sint (x :: 32 word) \<and> sint x < 2 ^ 31"
  using sint_ge [of x] sint_lt [of x] by simp

lemma sint_neg32: "- (2 ^ 31) < sint (x :: 32 word) \<Longrightarrow> sint (- x) = - sint x"
  using sint32_range [of x]
  by (simp add: sint_word_ariths signed_take_bit_int_eq_self)

lemma sint_add32:
  "- (2 ^ 31) \<le> sint (x :: 32 word) + sint y \<Longrightarrow> sint x + sint y < 2 ^ 31 \<Longrightarrow>
   sint (x + y) = sint x + sint y"
  by (simp add: sint_word_ariths signed_take_bit_int_eq_self)

lemma sint_c_abs: "- (2 ^ 31) < sint x \<Longrightarrow> sint (c_abs x) = \<bar>sint x\<bar>"
  by (auto simp: c_abs_def word_sless_alt sint_neg32)

lemma sint_ucast_64_32:
  assumes "- (2 ^ 31) \<le> sint (v :: 64 word)" and "sint v < 2 ^ 31"
  shows "sint (ucast v :: 32 word) = sint v"
proof -
  have "(ucast :: 64 word \<Rightarrow> 32 word) = scast"
    by (rule down_cast_same) (simp add: is_down)
  then have "sint (ucast v :: 32 word) = sint (scast v :: 32 word)"
    by (simp only:)
  also have "\<dots> = sint (word_of_int (sint v) :: 32 word)"
    by (simp only: scast_eq)
  also have "\<dots> = signed_take_bit 31 (sint v)"
    using sint_sbintrunc' [where 'a = 32 and bin = "sint v"]
    by (simp only: len_num1 len_bit0 len_bit1) simp
  also have "\<dots> = sint v"
    using assms by (simp add: signed_take_bit_int_eq_self)
  finally show ?thesis .
qed

section \<open>Decrement of a count\<close>

text \<open>
  What \<^verbatim>\<open>IncrExpr::DoSingleEval\<close> does to a count: the decrement is reported as an
  underflow at 0, and also at every count above \<open>2 ^ 63\<close>, which \<^verbatim>\<open>CoerceToInt\<close> hands
  over as a negative \<^verbatim>\<open>bro_int_t\<close>; in between it yields the count less one. The
  increment has no check and wraps around.
\<close>

lemma IncrExpr_DoSingleEval_count:
  "IncrExpr_DoSingleEval EXPR_DECR (BaseType TYPE_COUNT) (ScalarVal TYPE_COUNT u) =
     (if u = 0 \<or> 2 ^ 63 < unat u then Inl (RuntimeError ''count underflow'')
      else Inr (ScalarVal TYPE_COUNT (u - 1)))"
  "IncrExpr_DoSingleEval EXPR_INCR (BaseType TYPE_COUNT) (ScalarVal TYPE_COUNT u) =
     Inr (ScalarVal TYPE_COUNT (u + 1))"
  by (simp_all add: IncrExpr_DoSingleEval_def IsVector_def InternalType_def GetCount_def
        decr_sign)

text \<open>
  Claim C10 at the count \<open>2 ^ 63 + 1\<close>: the value is at least 1, and the decrement
  ends in the runtime error "count underflow" instead of yielding \<open>2 ^ 63\<close>.
\<close>

theorem decrement_of_large_count_underflows:
  "IncrExpr_DoSingleEval EXPR_DECR (BaseType TYPE_COUNT) (ScalarVal TYPE_COUNT 9223372036854775809) =
     Inl (RuntimeError ''count underflow'')"
  by (simp add: IncrExpr_DoSingleEval_count)

section \<open>Slice indices\<close>

lemma get_slice_index_sint:
  assumes "0 \<le> sint len" and "- (2 ^ 31) < sint idx"
  shows "sint (get_slice_index idx len) =
     (if sint len < \<bar>sint idx\<bar> then (if 0 < sint idx then sint len else 0)
      else if sint idx < 0 then sint len + sint idx
      else sint idx)"
proof -
  have abs: "sint (c_abs idx) = \<bar>sint idx\<bar>" using assms(2) by (rule sint_c_abs)
  show ?thesis
  proof (cases "sint len < \<bar>sint idx\<bar>")
    case True
    then show ?thesis by (simp add: get_slice_index_def word_sless_alt abs)
  next
    case False
    show ?thesis
    proof (cases "sint idx < 0")
      case True
      with False assms sint32_range [of len]
      have "sint (idx + len) = sint idx + sint len" by (intro sint_add32) auto
      with True False show ?thesis
        by (simp add: get_slice_index_def word_sless_alt abs)
    next
      case nonneg: False
      with False show ?thesis by (simp add: get_slice_index_def word_sless_alt abs)
    qed
  qed
qed

text \<open>
  A slice index \<open>v\<close> (a \<^verbatim>\<open>bro_int_t\<close>) that fits the
  parameter \<^verbatim>\<open>int idx\<close> and is not the most negative \<^verbatim>\<open>int\<close>, into a container of
  length \<open>len\<close>: when its absolute value exceeds the length it resolves to the length
  (positive) or to 0 (negative); otherwise a negative index resolves to the length plus
  the index and any other index to itself.
\<close>

lemma slice_endpoint_clamps:
  assumes "0 \<le> sint len" and "- (2 ^ 31) < sint v" and "sint v < 2 ^ 31"
  shows "sint (slice_endpoint v len) =
     (if sint len < \<bar>sint v\<bar> then (if 0 < sint v then sint len else 0)
      else if sint v < 0 then sint len + sint v
      else sint v)"
proof -
  have "sint (ucast v :: 32 word) = sint v"
    using assms(2,3) by (intro sint_ucast_64_32) simp_all
  with get_slice_index_sint [of len "ucast v"] assms show ?thesis
    by (simp add: slice_endpoint_def)
qed

text \<open>
  The lemma for a container of 5 elements: the index \<open>-1\<close> resolves to position 4,
  the index \<open>-6\<close> to position 0 and the index \<open>9\<close> to position 5.
\<close>

lemma slice_endpoint_clamps_at_5:
  "sint (slice_endpoint (- 1) 5) = 4 \<and> sint (slice_endpoint (- 6) 5) = 0 \<and>
   sint (slice_endpoint 9 5) = 5"
  using slice_endpoint_clamps [of 5 "- 1"] slice_endpoint_clamps [of 5 "- 6"]
    slice_endpoint_clamps [of 5 9]
  by simp

text \<open>
  Claim C8 at the slice \<^verbatim>\<open>v[0:4294967297]\<close> of the vector \<open>[10, 20, 30, 40, 50]\<close>. The
  second index, \<open>2 ^ 32 + 1\<close>, exceeds the length 5 and is to be clamped to it, which
  gives the whole vector. \<^verbatim>\<open>get_slice_index\<close> takes an \<^verbatim>\<open>int\<close>: it receives the low 32
  bits of the index, resolves them to position 1, and the slice is \<open>[10]\<close>.
\<close>

theorem slice_index_beyond_int_is_not_clamped:
  "sint (slice_endpoint 4294967297 5) = 1 \<and>
   Eval fp_sample
     (IndexExpr (VectorType (BaseType TYPE_COUNT))
        (ConstExpr (vector_of_counts [Some 10, Some 20, Some 30, Some 40, Some 50]))
        (ListExpr (TypeList [BaseType TYPE_COUNT, BaseType TYPE_COUNT])
           [ConstExpr (GetCount 0), ConstExpr (GetCount 4294967297)])
        True) frame_n0 =
     Inr (Some (vector_of_counts [Some 10]), frame_n0)"
  by code_simp

section \<open>Short-circuit evaluation\<close>

text \<open>
  Claim C3. For a node of \<^verbatim>\<open>BoolExpr\<close> that is not erroneous and whose operands are both
  scalar, the left operand is evaluated first; when it aborts or yields null, so does
  the node. Otherwise \<^verbatim>\<open>&&\<close> returns the left value, in the state the left operand has
  left, when that value is zero, and else is the evaluation of the right operand in
  that state; \<^verbatim>\<open>||\<close> returns the left value when it is not zero, and else is the
  evaluation of the right operand. On the short-circuited branch the right operand is
  not evaluated: the state is the one after the left operand.
\<close>

theorem BoolExpr_short_circuit:
  assumes "Tag ty \<noteq> TYPE_ERROR" and "\<not> is_vector_expr op1" and "\<not> is_vector_expr op2"
  shows "Eval fp (BoolExpr EXPR_AND_AND ty op1 op2) s =
           (case Eval fp op1 s of
              Inl e \<Rightarrow> Inl e
            | Inr (None, s1) \<Rightarrow> Inr (None, s1)
            | Inr (Some v1, s1) \<Rightarrow> if IsZero v1 then Inr (Some v1, s1) else Eval fp op2 s1) \<and>
         Eval fp (BoolExpr EXPR_OR_OR ty op1 op2) s =
           (case Eval fp op1 s of
              Inl e \<Rightarrow> Inl e
            | Inr (None, s1) \<Rightarrow> Inr (None, s1)
            | Inr (Some v1, s1) \<Rightarrow> if IsZero v1 then Eval fp op2 s1 else Inr (Some v1, s1))"
  using assms by (simp split: sum.split option.split prod.split)

lemma Eval_zero_less_incr_n:
  "Eval fp_sample zero_less_incr_n frame_n0 = Inr (Some (GetBool True), frame_n1)"
  by (simp add: zero_less_incr_n_def incr_n_def frame_n0_def frame_n1_def local_id_def
        is_vector_def GetCount_def GetBool_def IncrExpr_DoSingleEval_def IsVector_def
        InternalType_def UnaryExpr_Fold_def SetElement_def Fold_def Fold_switch_def
        DO_INT_VAL_FOLD_def Fold_result_def bool_int_def)

text \<open>
  The theorem with the counter \<open>n\<close>: \<^verbatim>\<open>F && (0 < ++n)\<close> returns \<^verbatim>\<open>F\<close> and leaves
  \<open>n = 0\<close>, while \<^verbatim>\<open>F || (0 < ++n)\<close> evaluates the right operand and leaves \<open>n = 1\<close>.
\<close>

theorem BoolExpr_short_circuit_witness:
  "Eval fp_sample (BoolExpr EXPR_AND_AND (BaseType TYPE_BOOL) (ConstExpr (GetBool False))
      zero_less_incr_n) frame_n0 = Inr (Some (GetBool False), frame_n0) \<and>
   Eval fp_sample (BoolExpr EXPR_OR_OR (BaseType TYPE_BOOL) (ConstExpr (GetBool False))
      zero_less_incr_n) frame_n0 = Inr (Some (GetBool True), frame_n1)"
proof -
  have ty: "Tag (BaseType TYPE_BOOL) \<noteq> TYPE_ERROR" by simp
  have op1: "\<not> is_vector_expr (ConstExpr (GetBool False))"
    by (simp add: is_vector_expr_def GetBool_def)
  have op2: "\<not> is_vector_expr zero_less_incr_n"
    by (simp add: is_vector_expr_def zero_less_incr_n_def)
  have left: "Eval fp_sample (ConstExpr (GetBool False)) frame_n0 = Inr (Some (GetBool False), frame_n0)"
    by simp
  have zero: "IsZero (GetBool False)" by (simp add: GetBool_def)
  from BoolExpr_short_circuit [OF ty op1 op2, of fp_sample frame_n0] left zero
    Eval_zero_less_incr_n
  show ?thesis by simp
qed

section \<open>Elementwise operations on two vectors\<close>

declare fold_pairs.simps [simp del]

lemma fold_pairs_done: "\<not> i < length xs \<Longrightarrow> fold_pairs F xs ys i res = Inr res"
  by (subst fold_pairs.simps) simp

lemma fold_pairs_step:
  "i < length xs \<Longrightarrow>
   fold_pairs F xs ys i res =
     (case (VectorVal_Lookup xs i, VectorVal_Lookup ys i) of
        (Some x, Some y) \<Rightarrow>
          (case F x y of
             Inl e \<Rightarrow> Inl e
           | Inr r \<Rightarrow> fold_pairs F xs ys (i + 1) (VectorVal_Assign res i (Some r)))
      | _ \<Rightarrow> fold_pairs F xs ys (i + 1) (VectorVal_Assign res i None))"
  by (subst fold_pairs.simps) simp

text \<open>The loop aborts only with the abort of a scalar fold of two defined elements.\<close>

lemma fold_pairs_Inl:
  "fold_pairs F xs ys i res = Inl e \<Longrightarrow>
   \<exists>j. i \<le> j \<and> j < length xs \<and>
     (\<exists>a b. xs ! j = Some a \<and> VectorVal_Lookup ys j = Some b \<and> F a b = Inl e)"
proof (induction "length xs - i" arbitrary: i res)
  case 0
  then show ?case by (simp add: fold_pairs_done)
next
  case (Suc n)
  then have lt: "i < length xs" and n: "n = length xs - Suc i" by simp_all
  show ?case
  proof (cases "\<exists>a b. xs ! i = Some a \<and> VectorVal_Lookup ys i = Some b \<and> F a b = Inl e")
    case True
    with lt show ?thesis by (intro exI [of _ i]) simp
  next
    case False
    with Suc.prems lt obtain res' where "fold_pairs F xs ys (Suc i) res' = Inl e"
      by (auto simp: fold_pairs_step VectorVal_Lookup_def split: option.splits sum.splits)
    from Suc.hyps(1) [OF n this] obtain j where "Suc i \<le> j" "j < length xs"
      "\<exists>a b. xs ! j = Some a \<and> VectorVal_Lookup ys j = Some b \<and> F a b = Inl e"
      by auto
    then show ?thesis by (intro exI [of _ j]) auto
  qed
qed

text \<open>
  When the loop returns, it has appended one cell for each remaining position: no value
  where an operand has none, the scalar fold where both have one.
\<close>

lemma fold_pairs_Inr:
  "fold_pairs F xs ys i res = Inr zs \<Longrightarrow> length res = i \<Longrightarrow>
   length zs = max i (length xs) \<and> take i zs = res \<and>
   (\<forall>j. i \<le> j \<and> j < length xs \<longrightarrow>
      (xs ! j = None \<or> VectorVal_Lookup ys j = None \<longrightarrow> zs ! j = None) \<and>
      (\<forall>a b. xs ! j = Some a \<and> VectorVal_Lookup ys j = Some b \<longrightarrow>
         (\<exists>r. F a b = Inr r \<and> zs ! j = Some r)))"
proof (induction "length xs - i" arbitrary: i res)
  case 0
  then show ?case by (auto simp: fold_pairs_done)
next
  case (Suc n)
  then have lt: "i < length xs" and n: "n = length xs - Suc i" by simp_all
  from Suc.prems lt obtain c where
    rec: "fold_pairs F xs ys (Suc i) (res @ [c]) = Inr zs" and
    c: "(xs ! i = None \<or> VectorVal_Lookup ys i = None \<longrightarrow> c = None) \<and>
        (\<forall>a b. xs ! i = Some a \<and> VectorVal_Lookup ys i = Some b \<longrightarrow>
           F a b = Inr (the c) \<and> c \<noteq> None)"
    by (auto simp: fold_pairs_step VectorVal_Lookup_def VectorVal_Assign_def
          split: option.splits sum.splits)
  from Suc.hyps(1) [OF n rec] Suc.prems(2)
  have ih: "length zs = max (Suc i) (length xs)" "take (Suc i) zs = res @ [c]"
    "\<forall>j. Suc i \<le> j \<and> j < length xs \<longrightarrow>
      (xs ! j = None \<or> VectorVal_Lookup ys j = None \<longrightarrow> zs ! j = None) \<and>
      (\<forall>a b. xs ! j = Some a \<and> VectorVal_Lookup ys j = Some b \<longrightarrow>
         (\<exists>r. F a b = Inr r \<and> zs ! j = Some r))"
    by simp_all
  have "zs ! i = take (Suc i) zs ! i" by simp
  also have "\<dots> = c" using Suc.prems(2) by (simp only: ih(2)) (simp add: nth_append)
  finally have zi: "zs ! i = c" .
  have "take i zs = take i (take (Suc i) zs)" by simp
  also have "\<dots> = res" using Suc.prems(2) by (simp only: ih(2)) simp
  finally have tk: "take i zs = res" .
  show ?case
  proof (intro conjI allI impI)
    show "length zs = max i (length xs)" using ih(1) lt by simp
    show "take i zs = res" by (rule tk)
  next
    fix j assume j: "i \<le> j \<and> j < length xs" and "xs ! j = None \<or> VectorVal_Lookup ys j = None"
    then show "zs ! j = None" using ih(3) c zi by (cases "j = i") auto
  next
    fix j a b assume j: "i \<le> j \<and> j < length xs"
      and "xs ! j = Some a \<and> VectorVal_Lookup ys j = Some b"
    then show "\<exists>r. F a b = Inr r \<and> zs ! j = Some r" using ih(3) c zi by (cases "j = i") auto
  qed
qed

lemma BinaryExpr_Eval_vectors:
  assumes "Eval fp op1 s = Inr (Some (VectorVal y1 xs), s1)"
    and "Eval fp op2 s1 = Inr (Some (VectorVal y2 ys), s2)"
    and "length xs = length ys"
  shows "Eval fp (BinaryExpr tag (VectorType y) op1 op2) s =
     (case fold_pairs (Fold fp tag (VectorType y)) xs ys 0 [] of
        Inl e \<Rightarrow> Inl e
      | Inr r \<Rightarrow> Inr (Some (VectorVal y r), s2))"
  using assms by (simp add: is_vector_def)

text \<open>
  A node evaluated by \<^verbatim>\<open>BinaryExpr::Eval\<close> whose type is a vector type and
  whose operands evaluate to two vectors \<open>xs\<close> and \<open>ys\<close> of equal length. The
  evaluation either returns, in the state the operands have left, a vector of that
  length whose cell is undefined wherever a cell of \<open>xs\<close> or of \<open>ys\<close> is, and is the
  scalar \<open>Fold\<close> of the two elements wherever both are defined; or it aborts, and then
  with the abort of the scalar \<open>Fold\<close> of two defined elements. An undefined element is
  never the reason of an abort.
\<close>

lemma elementwise_fold_of_vectors:
  assumes "Eval fp op1 s = Inr (Some (VectorVal y1 xs), s1)"
    and "Eval fp op2 s1 = Inr (Some (VectorVal y2 ys), s2)"
    and "length xs = length ys"
  shows "(case Eval fp (BinaryExpr tag (VectorType y) op1 op2) s of
            Inl e \<Rightarrow>
              \<exists>i<length xs. \<exists>a b. xs ! i = Some a \<and> ys ! i = Some b \<and>
                 Fold fp tag (VectorType y) a b = Inl e
          | Inr (r, s') \<Rightarrow>
              s' = s2 \<and>
              (\<exists>zs. r = Some (VectorVal y zs) \<and> length zs = length xs \<and>
                 (\<forall>i<length xs.
                    (xs ! i = None \<or> ys ! i = None \<longrightarrow> zs ! i = None) \<and>
                    (\<forall>a b. xs ! i = Some a \<and> ys ! i = Some b \<longrightarrow>
                       (\<exists>v. Fold fp tag (VectorType y) a b = Inr v \<and> zs ! i = Some v)))))"
proof (cases "fold_pairs (Fold fp tag (VectorType y)) xs ys 0 []")
  case (Inl e)
  from fold_pairs_Inl [OF this] assms(3) have
    "\<exists>i<length xs. \<exists>a b. xs ! i = Some a \<and> ys ! i = Some b \<and>
       Fold fp tag (VectorType y) a b = Inl e"
    by (auto simp: VectorVal_Lookup_def)
  with Inl show ?thesis unfolding BinaryExpr_Eval_vectors [OF assms] by simp
next
  case (Inr zs)
  from fold_pairs_Inr [OF this] assms(3) have
    "length zs = length xs \<and>
     (\<forall>i<length xs.
        (xs ! i = None \<or> ys ! i = None \<longrightarrow> zs ! i = None) \<and>
        (\<forall>a b. xs ! i = Some a \<and> ys ! i = Some b \<longrightarrow>
           (\<exists>v. Fold fp tag (VectorType y) a b = Inr v \<and> zs ! i = Some v)))"
    by (auto simp: VectorVal_Lookup_def)
  with Inr show ?thesis unfolding BinaryExpr_Eval_vectors [OF assms] by simp
qed

text \<open>
  The lemma at the sum of the vectors \<open>[1, -, 3]\<close> and \<open>[10, 20, 30]\<close>, the first
  with no value at position 1: the operands evaluate to these vectors, and the sum is
  \<open>[11, -, 33]\<close>.
\<close>

lemma elementwise_fold_of_vectors_at_sum:
  "Eval fp_sample (ConstExpr (vector_of_counts [Some 1, None, Some 3])) frame_n0 =
     Inr (Some (vector_of_counts [Some 1, None, Some 3]), frame_n0) \<and>
   Eval fp_sample (ConstExpr (vector_of_counts [Some 10, Some 20, Some 30])) frame_n0 =
     Inr (Some (vector_of_counts [Some 10, Some 20, Some 30]), frame_n0) \<and>
   Eval fp_sample
     (BinaryExpr EXPR_ADD (VectorType (BaseType TYPE_COUNT))
        (ConstExpr (vector_of_counts [Some 1, None, Some 3]))
        (ConstExpr (vector_of_counts [Some 10, Some 20, Some 30]))) frame_n0 =
     Inr (Some (vector_of_counts [Some 11, None, Some 33]), frame_n0)"
proof -
  have c: "Eval fp_sample (ConstExpr (vector_of_counts cs)) frame_n0 =
      Inr (Some (VectorVal (BaseType TYPE_COUNT) (map (map_option GetCount) cs)), frame_n0)" for cs
    by (simp add: vector_of_counts_def)
  have len: "length (map (map_option GetCount) [Some 1, None, Some 3]) =
      length (map (map_option GetCount) [Some 10, Some 20, Some 30])"
    by simp
  from elementwise_fold_of_vectors
      [OF c c len, where tag = EXPR_ADD and y = "BaseType TYPE_COUNT"]
  show ?thesis
    by (simp add: vector_of_counts_def is_vector_def fold_pairs.simps VectorVal_Lookup_def
          VectorVal_Assign_def GetCount_def Fold_def InternalType_def Fold_switch_def DO_FOLD_def
          Fold_result_def IsVector_def)
qed

text \<open>
  The loop of \<^verbatim>\<open>BoolExpr::Eval\<close> over two vectors of equal length, on a result resized
  to that length: a cell is undefined wherever a cell of either operand is, and is the
  conjunction or disjunction of the two elements wherever both are defined.
\<close>

declare bool_pairs.simps [simp del]

lemma bool_pairs_cells:
  "length res = length xs \<Longrightarrow> length ys = length xs \<Longrightarrow>
   length (bool_pairs tag xs ys i res) = length xs \<and>
   (\<forall>j<length xs. bool_pairs tag xs ys i res ! j =
      (if j < i then res ! j
       else (case (xs ! j, ys ! j) of
               (Some a, Some b) \<Rightarrow>
                 Some (GetBool (if tag = EXPR_AND_AND then \<not> IsZero a \<and> \<not> IsZero b
                                else \<not> IsZero a \<or> \<not> IsZero b))
             | _ \<Rightarrow> None)))"
proof (induction "length xs - i" arbitrary: i res)
  case 0
  then show ?case by (subst bool_pairs.simps, subst (2) bool_pairs.simps) simp
next
  case (Suc n)
  then have lt: "i < length xs" and n: "n = length xs - Suc i" by simp_all
  define c where "c =
    (case (xs ! i, ys ! i) of
       (Some a, Some b) \<Rightarrow>
         Some (GetBool (if tag = EXPR_AND_AND then \<not> IsZero a \<and> \<not> IsZero b
                        else \<not> IsZero a \<or> \<not> IsZero b))
     | _ \<Rightarrow> None)"
  have step: "bool_pairs tag xs ys i res = bool_pairs tag xs ys (Suc i) (res[i := c])"
    using lt Suc.prems
    by (subst bool_pairs.simps)
      (simp add: c_def VectorVal_Lookup_def VectorVal_Assign_def Let_def
         split: option.split)
  have len: "length (res[i := c]) = length xs" using Suc.prems(1) by simp
  from Suc.hyps(1) [OF n len Suc.prems(2)]
  have ih: "length (bool_pairs tag xs ys (Suc i) (res[i := c])) = length xs"
    "\<forall>j<length xs. bool_pairs tag xs ys (Suc i) (res[i := c]) ! j =
      (if j < Suc i then (res[i := c]) ! j
       else (case (xs ! j, ys ! j) of
               (Some a, Some b) \<Rightarrow>
                 Some (GetBool (if tag = EXPR_AND_AND then \<not> IsZero a \<and> \<not> IsZero b
                                else \<not> IsZero a \<or> \<not> IsZero b))
             | _ \<Rightarrow> None))"
    by simp_all
  show ?case
  proof (intro conjI allI impI)
    show "length (bool_pairs tag xs ys i res) = length xs" using ih(1) step by simp
  next
    fix j assume j: "j < length xs"
    show "bool_pairs tag xs ys i res ! j =
      (if j < i then res ! j
       else (case (xs ! j, ys ! j) of
               (Some a, Some b) \<Rightarrow>
                 Some (GetBool (if tag = EXPR_AND_AND then \<not> IsZero a \<and> \<not> IsZero b
                                else \<not> IsZero a \<or> \<not> IsZero b))
             | _ \<Rightarrow> None))"
    proof (cases "j = i")
      case True
      with ih(2) j Suc.prems(1) show ?thesis by (simp add: step c_def)
    next
      case False
      with ih(2) j show ?thesis by (simp add: step less_Suc_eq)
    qed
  qed
qed

lemma BoolExpr_Eval_vectors:
  assumes "is_vector_expr op1" and "is_vector_expr op2"
    and "Eval fp op1 s = Inr (Some (VectorVal y1 xs), s1)"
    and "Eval fp op2 s1 = Inr (Some (VectorVal y2 ys), s2)"
    and "length xs = length ys"
  shows "\<exists>zs. Eval fp (BoolExpr tag (VectorType y) op1 op2) s = Inr (Some (VectorVal y zs), s2) \<and>
           length zs = length xs \<and>
           (\<forall>i<length xs.
              (xs ! i = None \<or> ys ! i = None \<longrightarrow> zs ! i = None) \<and>
              (\<forall>a b. xs ! i = Some a \<and> ys ! i = Some b \<longrightarrow>
                 zs ! i = Some (GetBool (if tag = EXPR_AND_AND then \<not> IsZero a \<and> \<not> IsZero b
                                         else \<not> IsZero a \<or> \<not> IsZero b))))"
proof -
  let ?zs = "bool_pairs tag xs ys 0 (VectorVal_Resize [] (length xs))"
  have ev: "Eval fp (BoolExpr tag (VectorType y) op1 op2) s = Inr (Some (VectorVal y ?zs), s2)"
    using assms by simp
  have "length (VectorVal_Resize [] (length xs)) = length xs"
    by (simp add: VectorVal_Resize_def)
  from bool_pairs_cells [OF this assms(5) [symmetric], of tag 0]
  have "length ?zs = length xs \<and>
        (\<forall>i<length xs.
           (xs ! i = None \<or> ys ! i = None \<longrightarrow> ?zs ! i = None) \<and>
           (\<forall>a b. xs ! i = Some a \<and> ys ! i = Some b \<longrightarrow>
              ?zs ! i = Some (GetBool (if tag = EXPR_AND_AND then \<not> IsZero a \<and> \<not> IsZero b
                                       else \<not> IsZero a \<or> \<not> IsZero b))))"
    by (auto split: option.splits)
  with ev show ?thesis by blast
qed

text \<open>
  Claim C4 at the difference of two vectors of times, \<open>[5.0, 3.0]\<close> and \<open>[3.0, 2.0]\<close>.
  The constructor of \<^verbatim>\<open>SubExpr\<close> gives the node the scalar type interval, where its
  other branches make a vector type for vector operands. \<^verbatim>\<open>BinaryExpr::Eval\<close> finds two
  vectors of equal length and takes \<^verbatim>\<open>Type()->AsVectorType()\<close> of that scalar type to
  create the result: no vector of the differences of the elements is produced. The
  node of the difference of a vector of times and a vector of intervals gets the type
  vector of time from the same constructor.
\<close>

theorem difference_of_time_vectors_is_not_elementwise:
  "SubExpr_ctor (ConstExpr (vector_of_times [Some 0x4014000000000000, Some 0x4008000000000000]))
     (ConstExpr (vector_of_times [Some 0x4008000000000000, Some 0x4000000000000000])) =
     (BinaryExpr EXPR_SUB (BaseType TYPE_INTERVAL)
        (ConstExpr (vector_of_times [Some 0x4014000000000000, Some 0x4008000000000000]))
        (ConstExpr (vector_of_times [Some 0x4008000000000000, Some 0x4000000000000000])),
      []) \<and>
   Eval fp_sample
     (fst (SubExpr_ctor
        (ConstExpr (vector_of_times [Some 0x4014000000000000, Some 0x4008000000000000]))
        (ConstExpr (vector_of_times [Some 0x4008000000000000, Some 0x4000000000000000]))))
     frame_n0 =
     Inl (Unspecified ''BroType::AsVectorType on a type of another kind'') \<and>
   Type (fst (SubExpr_ctor
        (ConstExpr (vector_of_times [Some 0x4014000000000000, Some 0x4008000000000000]))
        (ConstExpr (VectorVal (BaseType TYPE_INTERVAL)
           [Some (ScalarVal TYPE_INTERVAL 0x4008000000000000),
            Some (ScalarVal TYPE_INTERVAL 0x4000000000000000)])))) =
     VectorType (BaseType TYPE_TIME)"
  by (simp add: SubExpr_ctor_def vector_of_times_def IsError_def base_tag_def IsVector_def
        is_vector_expr_def is_vector_def SetType_def)

section \<open>Vectors of different sizes\<close>

text \<open>
  Claim C5. When the operands of a node that is not erroneous evaluate to two vectors
  of different lengths, \<^verbatim>\<open>BinaryExpr::Eval\<close> ends in the runtime error "vector operands
  are of different sizes", and \<^verbatim>\<open>BoolExpr::Eval\<close>, for operands of vector type, in
  "vector operands have different sizes". The evaluation is left by the error: it
  yields neither a vector nor any other value.
\<close>

theorem vector_sizes_differ:
  assumes "Tag ty \<noteq> TYPE_ERROR"
    and "Eval fp op1 s = Inr (Some (VectorVal y1 xs), s1)"
    and "Eval fp op2 s1 = Inr (Some (VectorVal y2 ys), s2)"
    and "length xs \<noteq> length ys"
  shows "Eval fp (BinaryExpr tag ty op1 op2) s =
           Inl (RuntimeError ''vector operands are of different sizes'') \<and>
         (is_vector_expr op1 \<and> is_vector_expr op2 \<longrightarrow>
            Eval fp (BoolExpr tag ty op1 op2) s =
              Inl (RuntimeError ''vector operands have different sizes''))"
  using assms by (simp add: is_vector_def)

text \<open>The theorem at vectors of 3 and of 4 elements.\<close>

theorem vector_sizes_differ_witness:
  "Eval fp_sample
     (BinaryExpr EXPR_ADD (VectorType (BaseType TYPE_COUNT))
        (ConstExpr (vector_of_counts [Some 1, Some 2, Some 3]))
        (ConstExpr (vector_of_counts [Some 1, Some 2, Some 3, Some 4]))) frame_n0 =
     Inl (RuntimeError ''vector operands are of different sizes'') \<and>
   Eval fp_sample
     (BoolExpr EXPR_AND_AND (VectorType (BaseType TYPE_BOOL))
        (ConstExpr (vector_of_bools [True, False, True]))
        (ConstExpr (vector_of_bools [True, False, True, True]))) frame_n0 =
     Inl (RuntimeError ''vector operands have different sizes'')"
proof -
  have ty: "Tag (VectorType t) \<noteq> TYPE_ERROR" for t by simp
  have c: "Eval fp_sample (ConstExpr (vector_of_counts cs)) st =
      Inr (Some (VectorVal (BaseType TYPE_COUNT) (map (map_option GetCount) cs)), st)" for cs st
    by (simp add: vector_of_counts_def)
  have b: "Eval fp_sample (ConstExpr (vector_of_bools bs)) st =
      Inr (Some (VectorVal (BaseType TYPE_BOOL) (map (\<lambda>b. Some (GetBool b)) bs)), st)" for bs st
    by (simp add: vector_of_bools_def)
  have v: "is_vector_expr (ConstExpr (vector_of_bools bs))" for bs
    by (simp add: is_vector_expr_def vector_of_bools_def)
  have "Eval fp_sample
     (BinaryExpr EXPR_ADD (VectorType (BaseType TYPE_COUNT))
        (ConstExpr (vector_of_counts [Some 1, Some 2, Some 3]))
        (ConstExpr (vector_of_counts [Some 1, Some 2, Some 3, Some 4]))) frame_n0 =
     Inl (RuntimeError ''vector operands are of different sizes'')"
    by (rule vector_sizes_differ [THEN conjunct1, OF ty c c]) simp
  moreover have "Eval fp_sample
     (BoolExpr EXPR_AND_AND (VectorType (BaseType TYPE_BOOL))
        (ConstExpr (vector_of_bools [True, False, True]))
        (ConstExpr (vector_of_bools [True, False, True, True]))) frame_n0 =
     Inl (RuntimeError ''vector operands have different sizes'')"
    by (rule vector_sizes_differ [THEN conjunct2, THEN mp, OF ty b b]) (simp_all add: v)
  ultimately show ?thesis by (rule conjI)
qed

section \<open>Indexing a vector by a vector\<close>

declare index_by_bools.simps [simp del]

lemma VectorVal_Assign_past_end:
  "VectorVal_Assign res (Suc (length res)) e = res @ [None, e]"
  by (simp add: VectorVal_Assign_def)

text \<open>
  What the loop for a boolean index vector builds: for each position that is selected,
  a cell of no value followed by the element of the base vector.
\<close>

lemma index_by_bools_gaps:
  "length bs = length xs \<Longrightarrow>
   index_by_bools xs (map (\<lambda>b. Some (GetBool b)) bs) i res =
     Inr (res @ concat (map (\<lambda>j. if bs ! j then [None, xs ! j] else []) [i..<length bs]))"
proof (induction "length bs - i" arbitrary: i res)
  case 0
  then show ?case by (subst index_by_bools.simps) simp
next
  case (Suc n)
  then have lt: "i < length bs" and n: "n = length bs - Suc i" by simp_all
  have up: "[i..<length xs] = i # [Suc i..<length xs]"
    using lt Suc.prems by (simp add: upt_conv_Cons)
  from Suc.hyps(1) [OF n Suc.prems] lt Suc.prems show ?case
    by (subst index_by_bools.simps)
      (simp add: up VectorVal_Lookup_def GetBool_def VectorVal_Assign_past_end)
qed

text \<open>
  Claim C9 at the base vector \<open>[10, 20, 30]\<close> and the boolean index vector
  \<open>[T, F, T]\<close>: the result is not the compacted vector \<open>[10, 30]\<close> but the vector
  \<open>[-, 10, -, 30]\<close> of four cells, two of them undefined.
\<close>

theorem index_by_bools_leaves_gaps:
  "Eval fp_sample
     (IndexExpr (VectorType (BaseType TYPE_COUNT))
        (ConstExpr (vector_of_counts [Some 10, Some 20, Some 30]))
        (ListExpr (TypeList [VectorType (BaseType TYPE_BOOL)])
           [ConstExpr (vector_of_bools [True, False, True])])
        False) frame_n0 =
     Inr (Some (vector_of_counts [None, Some 10, None, Some 30]), frame_n0)"
  by (simp add: vector_of_counts_def vector_of_bools_def ListVal_Index_def is_vector_def
        index_by_bools_gaps [of "[True, False, True]", simplified] upt_conv_Cons)

section \<open>Null results of operands\<close>

text \<open>
  The classes that check the result of each operand: when the first operand that
  yields null does so in the state \<open>s'\<close>, the node yields null in that state.
\<close>

lemma null_operand_propagates:
  "Eval fp op s = Inr (None, s') \<Longrightarrow> Eval fp (UnaryExpr tag ty op) s = Inr (None, (if Tag ty = TYPE_ERROR then s else s'))"
  "Eval fp op s = Inr (None, s') \<Longrightarrow> Eval fp (IncrExpr tag ty op) s = Inr (None, s')"
  "Eval fp op1 s = Inr (None, s') \<Longrightarrow> Eval fp (BinaryExpr tag ty op1 op2) s = Inr (None, (if Tag ty = TYPE_ERROR then s else s'))"
  "Eval fp op1 s = Inr (Some v1, s1) \<Longrightarrow> Eval fp op2 s1 = Inr (None, s') \<Longrightarrow>
     Eval fp (BinaryExpr tag ty op1 op2) s = Inr (None, (if Tag ty = TYPE_ERROR then s else s'))"
  "Eval fp op1 s = Inr (None, s') \<Longrightarrow> Eval fp (BoolExpr tag ty op1 op2) s = Inr (None, (if Tag ty = TYPE_ERROR then s else s'))"
  "\<not> is_init \<Longrightarrow> Eval fp op2 s = Inr (None, s') \<Longrightarrow>
     Eval fp (AssignExpr ty op1 op2 is_init val) s = Inr (None, s')"
  "Eval fp op1 s = Inr (None, s') \<Longrightarrow> Eval fp (IndexExpr ty op1 op2 is_slice) s = Inr (None, s')"
  by simp_all

text \<open>
  Claim C1 at three nodes whose operand yields null: a local identifier read with a
  null frame. \<^verbatim>\<open>EventExpr::Eval\<close> hands \<^verbatim>\<open>*v\<close> to the event queue although
  \<^verbatim>\<open>eval_list\<close> has returned null; \<^verbatim>\<open>BoolExpr::Eval\<close>, for a scalar and a vector
  operand, calls \<^verbatim>\<open>AsVectorVal\<close> on the null result of the vector operand before it
  tests it; and \<^verbatim>\<open>CondExpr::Eval\<close> calls \<^verbatim>\<open>IsZero\<close> on the null result of a scalar
  condition. None of them returns null.
\<close>

theorem null_operand_is_dereferenced:
  "Eval fp_sample
     (EventExpr (BaseType TYPE_VOID) ''e'' [NameExpr (local_id ''x'') (BaseType TYPE_COUNT)])
     no_frame =
     Inl (NullPointer ''mgr.QueueEvent(handler, std::move(*v))'') \<and>
   Eval fp_sample
     (BoolExpr EXPR_AND_AND (VectorType (BaseType TYPE_BOOL)) (ConstExpr (GetBool True))
        (NameExpr (local_id ''v'') (VectorType (BaseType TYPE_BOOL))))
     no_frame =
     Inl (NullPointer ''op2->Eval(f)->AsVectorVal()'') \<and>
   Eval fp_sample
     (CondExpr (BaseType TYPE_COUNT) (NameExpr (local_id ''b'') (BaseType TYPE_BOOL))
        (ConstExpr (GetCount 1)) (ConstExpr (GetCount 2)))
     no_frame =
     Inl (NullPointer ''v->IsZero()'')"
  by (simp add: no_frame_def local_id_def is_vector_expr_def GetBool_def)

section \<open>Erroneous nodes\<close>

text \<open>
  \<^verbatim>\<open>Expr::SetType\<close> keeps the error type: once the flag is set, no later \<^verbatim>\<open>SetType\<close>
  clears it.
\<close>

lemma SetType_keeps_error:
  "Tag old = TYPE_ERROR \<Longrightarrow> SetType (Some old) t = old"
  "Tag (SetError type) = TYPE_ERROR"
  by (auto simp: SetType_def SetError_def split: option.split)

text \<open>The classes whose \<^verbatim>\<open>Eval\<close> starts with \<^verbatim>\<open>if ( IsError() ) return 0;\<close>.\<close>

lemma erroneous_node_yields_null:
  "IsError (UnaryExpr tag ty op) \<Longrightarrow> Eval fp (UnaryExpr tag ty op) s = Inr (None, s)"
  "IsError (BinaryExpr tag ty op1 op2) \<Longrightarrow> Eval fp (BinaryExpr tag ty op1 op2) s = Inr (None, s)"
  "IsError (BoolExpr tag ty op1 op2) \<Longrightarrow> Eval fp (BoolExpr tag ty op1 op2) s = Inr (None, s)"
  "IsError (EventExpr ty name args) \<Longrightarrow> Eval fp (EventExpr ty name args) s = Inr (None, s)"
  by (simp_all add: IsError_def)

text \<open>
  Claim C7 at the conditional \<^verbatim>\<open>T ? 1 : "a"\<close>. Its constructor reports "operands must
  be of the same type" and sets the error flag; \<^verbatim>\<open>CondExpr::Eval\<close>, which does not
  test the flag, evaluates the node to the count 1. An erroneous increment of a count
  likewise changes the frame and yields a value.
\<close>

theorem erroneous_CondExpr_yields_a_value:
  "IsError (fst (CondExpr_ctor (ConstExpr (GetBool True)) (ConstExpr (GetCount 1))
      (ConstExpr (StringVal ''a'')))) \<and>
   snd (CondExpr_ctor (ConstExpr (GetBool True)) (ConstExpr (GetCount 1))
      (ConstExpr (StringVal ''a''))) = [''operands must be of the same type''] \<and>
   Eval fp_sample
     (fst (CondExpr_ctor (ConstExpr (GetBool True)) (ConstExpr (GetCount 1))
        (ConstExpr (StringVal ''a'')))) frame_n0 =
     Inr (Some (GetCount 1), frame_n0) \<and>
   Eval fp_sample
     (IncrExpr EXPR_INCR (BaseType TYPE_ERROR)
        (NameExpr (local_id ''n'') (BaseType TYPE_COUNT))) frame_n0 =
     Inr (Some (GetCount 1), frame_n1)"
  by (simp add: CondExpr_ctor_def IsError_def is_vector_expr_def IsVector_def GetBool_def
        GetCount_def BothArithmetic_def IsArithmetic_def IsIntegral_def SetError_def SetType_def
        frame_n0_def frame_n1_def local_id_def is_vector_def IncrExpr_DoSingleEval_def
        SetElement_def InternalType_def)

section \<open>Record coercion\<close>

lemma FieldOffset_negative: "FieldOffset ds field < 0 \<longleftrightarrow> field \<notin> td_id ` set ds"
  by (induction ds) (auto simp: Let_def)

lemma FieldOffset_field:
  "0 \<le> FieldOffset ds field \<Longrightarrow>
   nat (FieldOffset ds field) < length ds \<and> td_id (ds ! nat (FieldOffset ds field)) = field"
proof (induction ds)
  case Nil
  then show ?case by simp
next
  case (Cons d ds)
  show ?case
  proof (cases "td_id d = field")
    case True
    then show ?thesis by simp
  next
    case False
    with Cons.prems have nn: "0 \<le> FieldOffset ds field"
      by (simp add: Let_def split: if_splits)
    with False have "FieldOffset (d # ds) field = FieldOffset ds field + 1"
      by (simp add: Let_def)
    moreover have "nat (FieldOffset ds field + 1) = Suc (nat (FieldOffset ds field))"
      using nn by simp
    ultimately show ?thesis using Cons.IH [OF nn] by simp
  qed
qed

lemma FieldOffset_nth:
  "distinct (map td_id ds) \<Longrightarrow> k < length ds \<Longrightarrow> FieldOffset ds (td_id (ds ! k)) = int k"
proof (induction ds arbitrary: k)
  case Nil
  then show ?case by simp
next
  case (Cons d ds)
  show ?case
  proof (cases k)
    case 0
    then show ?thesis by simp
  next
    case (Suc j)
    with Cons.prems have j: "j < length ds" and ne: "td_id d \<noteq> td_id (ds ! j)"
      by auto
    from Cons.IH [OF _ j] Cons.prems(1) have "FieldOffset ds (td_id (ds ! j)) = int j" by simp
    with Suc ne show ?thesis by (simp add: Let_def)
  qed
qed

text \<open>
  When the first loop reports nothing, the entries of the map that are still \<open>-1\<close> are
  those of the fields of the destination whose name no field of the source has.
\<close>

lemma map_fields_unmapped:
  "map_fields co t_r rest i m = (None, m') \<Longrightarrow> length m = length t_r \<Longrightarrow>
   distinct (map td_id t_r) \<Longrightarrow>
   length m' = length t_r \<and>
   (\<forall>k<length t_r. m' ! k = - 1 \<longleftrightarrow> m ! k = - 1 \<and> td_id (t_r ! k) \<notin> td_id ` set rest)"
proof (induction rest arbitrary: i m)
  case Nil
  then show ?case by simp
next
  case (Cons sub_d rest)
  let ?t_i = "FieldOffset t_r (td_id sub_d)"
  from Cons.prems(1) have nn: "0 \<le> ?t_i"
    and rec: "map_fields co t_r rest (i + 1) (m[nat ?t_i := int i]) = (None, m')"
    by (auto simp: Let_def split: if_splits)
  from FieldOffset_field [OF nn]
  have lt: "nat ?t_i < length t_r" and nm: "td_id (t_r ! nat ?t_i) = td_id sub_d" by simp_all
  from Cons.IH [OF rec] Cons.prems(2,3)
  have ih: "length m' = length t_r"
    "\<forall>k<length t_r. m' ! k = - 1 \<longleftrightarrow>
       (m[nat ?t_i := int i]) ! k = - 1 \<and> td_id (t_r ! k) \<notin> td_id ` set rest"
    by simp_all
  have "m' ! k = - 1 \<longleftrightarrow> m ! k = - 1 \<and> td_id (t_r ! k) \<notin> td_id ` set (sub_d # rest)"
    if k: "k < length t_r" for k
  proof (cases "k = nat ?t_i")
    case True
    with ih(2) k Cons.prems(2) nm show ?thesis by simp
  next
    case False
    have "td_id (t_r ! k) \<noteq> td_id sub_d"
    proof
      assume "td_id (t_r ! k) = td_id sub_d"
      with FieldOffset_nth [OF Cons.prems(3) k] have "?t_i = int k" by simp
      with False show False by simp
    qed
    with ih(2) k False show ?thesis by simp
  qed
  with ih(1) show ?case by blast
qed

text \<open>The second loop reports the first unmapped field that lacks \<^verbatim>\<open>&optional\<close>.\<close>

lemma unmapped_fields_None:
  "length ds = length ks \<Longrightarrow>
   unmapped_fields ds ks = None \<longleftrightarrow>
     (\<forall>i<length ds. ks ! i = - 1 \<longrightarrow> FindAttr (ds ! i) ATTR_OPTIONAL \<noteq> None)"
proof (induction ds ks rule: list_induct2)
  case Nil
  then show ?case by simp
next
  case (Cons d ds k ks)
  then show ?case by (auto simp: less_Suc_eq_0_disj)
qed

lemma unmapped_fields_Some:
  "length ds = length ks \<Longrightarrow> unmapped_fields ds ks = Some msg \<Longrightarrow>
   \<exists>i<length ds. ks ! i = - 1 \<and> FindAttr (ds ! i) ATTR_OPTIONAL = None \<and>
     msg = ''non-optional field '' @ quoted (td_id (ds ! i)) @ '' missing''"
proof (induction ds ks rule: list_induct2)
  case Nil
  then show ?case by simp
next
  case (Cons d ds k ks)
  show ?case
  proof (cases "k = - 1 \<and> FindAttr d ATTR_OPTIONAL = None")
    case True
    with Cons.prems show ?thesis by (intro exI [of _ 0]) auto
  next
    case False
    with Cons.prems have "unmapped_fields ds ks = Some msg" by auto
    from Cons.IH [OF this] obtain i where "i < length ds" "ks ! i = - 1"
      "FindAttr (ds ! i) ATTR_OPTIONAL = None"
      "msg = ''non-optional field '' @ quoted (td_id (ds ! i)) @ '' missing''"
      by blast
    then show ?thesis by (intro exI [of _ "Suc i"]) simp
  qed
qed

declare Fold_fields.simps [simp del]

text \<open>When no field aborts, the loop assigns each remaining field its value.\<close>

lemma Fold_fields_Inr:
  "\<forall>j<map_size node. i \<le> j \<longrightarrow> Fold_field co node t_r rv_type rv j = Inr (f j) \<Longrightarrow>
   length val = map_size node \<Longrightarrow> i \<le> map_size node \<Longrightarrow>
   Fold_fields co node t_r rv_type rv i val = Inr (take i val @ map f [i..<map_size node])"
proof (induction "map_size node - i" arbitrary: i val)
  case 0
  then show ?case by (subst Fold_fields.simps) simp
next
  case (Suc n)
  then have lt: "i < map_size node" and n: "n = map_size node - Suc i" by simp_all
  have fi: "Fold_field co node t_r rv_type rv i = Inr (f i)" using Suc.prems(1) lt by simp
  have rec: "Fold_fields co node t_r rv_type rv (Suc i) (val[i := f i]) =
      Inr (take (Suc i) (val[i := f i]) @ map f [Suc i..<map_size node])"
    using Suc.prems lt by (intro Suc.hyps(1) [OF n]) simp_all
  have tk: "take (Suc i) (val[i := f i]) = take i val @ [f i]"
    using lt Suc.prems(2) by (simp add: take_Suc_conv_app_nth)
  have up: "[i..<map_size node] = i # [Suc i..<map_size node]"
    using lt by (simp add: upt_conv_Cons)
  show ?case
    by (subst Fold_fields.simps) (simp add: lt fi rec tk up)
qed

lemma unmapped_field_value:
  "FindAttr d ATTR_DEFAULT = None \<Longrightarrow> unmapped_field co d = Inr None"
  "FindAttr d ATTR_DEFAULT = Some def \<Longrightarrow> AttrExpr_Eval0 def = Some def_val \<Longrightarrow>
     Tag (Val_Type def_val) \<noteq> TYPE_RECORD \<Longrightarrow> unmapped_field co d = Inr (Some def_val)"
  by (simp_all add: unmapped_field_def)

lemma RecordCoerceExpr_ctor_records:
  "\<not> IsError op \<Longrightarrow> Type op = RecordType sub_r \<Longrightarrow>
   map_fields co t_r sub_r 0 (replicate (length t_r) (- 1)) = (None, m) \<Longrightarrow>
   RecordCoerceExpr_ctor co op (RecordType t_r) =
     (case unmapped_fields t_r m of
        Some msg \<Rightarrow>
          Inr (\<lparr>coerce_type = BaseType TYPE_ERROR, coerce_op = op, map_size = length t_r,
                 coerce_map = m\<rparr>, [msg])
      | None \<Rightarrow>
          Inr (\<lparr>coerce_type = RecordType t_r, coerce_op = op, map_size = length t_r,
                 coerce_map = m\<rparr>, []))"
  by (simp add: RecordCoerceExpr_ctor_def SetType_def SetError_def Let_def split: option.split)

text \<open>
  The constructor and \<^verbatim>\<open>Fold\<close> on the fields of the destination that no field of the
  source is named as, by the attribute that the constructor tests. The source and the
  destination are record types, the fields of the destination have distinct names, and
  the first loop of the constructor reports nothing.
\<close>

lemma RecordCoerceExpr_unmapped:
  assumes op: "\<not> IsError op" "Type op = RecordType sub_r"
    and names: "distinct (map td_id t_r)"
    and first_loop: "map_fields co t_r sub_r 0 (replicate (length t_r) (- 1)) = (None, m)"
  shows
    "if \<forall>d\<in>set t_r. td_id d \<notin> td_id ` set sub_r \<longrightarrow> FindAttr d ATTR_OPTIONAL \<noteq> None
     then
       (let node = \<lparr>coerce_type = RecordType t_r, coerce_op = op, map_size = length t_r,
                     coerce_map = m\<rparr>
        in RecordCoerceExpr_ctor co op (RecordType t_r) = Inr (node, []) \<and>
           (\<forall>rv_type rv.
              (\<forall>i<length t_r. \<forall>e. Fold_field co node t_r rv_type rv i \<noteq> Inl e) \<longrightarrow>
              (\<exists>val. RecordCoerceExpr_Fold co node (RecordVal rv_type rv) =
                       Inr (RecordVal t_r val) \<and>
                     length val = length t_r \<and>
                     (\<forall>i<length t_r. td_id (t_r ! i) \<notin> td_id ` set sub_r \<longrightarrow>
                        (FindAttr (t_r ! i) ATTR_DEFAULT = None \<longrightarrow> val ! i = None) \<and>
                        (\<forall>def def_val.
                           FindAttr (t_r ! i) ATTR_DEFAULT = Some def \<and>
                           AttrExpr_Eval0 def = Some def_val \<and>
                           Tag (Val_Type def_val) \<noteq> TYPE_RECORD \<longrightarrow>
                           val ! i = Some def_val)))))
     else
       (\<exists>d\<in>set t_r. td_id d \<notin> td_id ` set sub_r \<and> FindAttr d ATTR_OPTIONAL = None \<and>
          (let node = \<lparr>coerce_type = BaseType TYPE_ERROR, coerce_op = op,
                        map_size = length t_r, coerce_map = m\<rparr>
           in RecordCoerceExpr_ctor co op (RecordType t_r) =
                Inr (node, [''non-optional field '' @ quoted (td_id d) @ '' missing'']) \<and>
              (\<forall>fp s. RecordCoerceExpr_Eval fp co node s = Inr (None, s))))"
proof -
  from map_fields_unmapped [OF first_loop _ names]
  have len: "length m = length t_r"
    and un: "\<forall>k<length t_r. m ! k = - 1 \<longleftrightarrow> td_id (t_r ! k) \<notin> td_id ` set sub_r"
    by simp_all
  note ctor = RecordCoerceExpr_ctor_records [OF op first_loop]
  let ?node = "\<lparr>coerce_type = RecordType t_r, coerce_op = op, map_size = length t_r,
                 coerce_map = m\<rparr>"
  show ?thesis
  proof (cases "\<forall>d\<in>set t_r. td_id d \<notin> td_id ` set sub_r \<longrightarrow> FindAttr d ATTR_OPTIONAL \<noteq> None")
    case True
    then have "\<forall>i<length t_r. m ! i = - 1 \<longrightarrow> FindAttr (t_r ! i) ATTR_OPTIONAL \<noteq> None"
      using un by (auto simp del: not_None_eq)
    with len have "unmapped_fields t_r m = None" by (simp add: unmapped_fields_None)
    with ctor have built: "RecordCoerceExpr_ctor co op (RecordType t_r) = Inr (?node, [])"
      by simp
    have folds: "\<exists>val. RecordCoerceExpr_Fold co ?node (RecordVal rv_type rv) =
                       Inr (RecordVal t_r val) \<and>
                     length val = length t_r \<and>
                     (\<forall>i<length t_r. td_id (t_r ! i) \<notin> td_id ` set sub_r \<longrightarrow>
                        (FindAttr (t_r ! i) ATTR_DEFAULT = None \<longrightarrow> val ! i = None) \<and>
                        (\<forall>def def_val.
                           FindAttr (t_r ! i) ATTR_DEFAULT = Some def \<and>
                           AttrExpr_Eval0 def = Some def_val \<and>
                           Tag (Val_Type def_val) \<noteq> TYPE_RECORD \<longrightarrow>
                           val ! i = Some def_val))"
      if no_abort: "\<forall>i<length t_r. \<forall>e. Fold_field co ?node t_r rv_type rv i \<noteq> Inl e"
      for rv_type rv
    proof -
      define f where "f j = projr (Fold_field co ?node t_r rv_type rv j)" for j
      have fj: "Fold_field co ?node t_r rv_type rv j = Inr (f j)" if "j < length t_r" for j
        using no_abort that unfolding f_def
        by (cases "Fold_field co ?node t_r rv_type rv j") auto
      have "Fold_fields co ?node t_r rv_type rv 0 (replicate (length t_r) None) =
          Inr (take 0 (replicate (length t_r) None) @ map f [0..<map_size ?node])"
        by (rule Fold_fields_Inr) (simp_all add: fj)
      then have fold: "RecordCoerceExpr_Fold co ?node (RecordVal rv_type rv) =
          Inr (RecordVal t_r (map f [0..<length t_r]))"
        by (simp add: RecordCoerceExpr_Fold_def)
      have "(FindAttr (t_r ! i) ATTR_DEFAULT = None \<longrightarrow> f i = None) \<and>
            (\<forall>def def_val.
               FindAttr (t_r ! i) ATTR_DEFAULT = Some def \<and>
               AttrExpr_Eval0 def = Some def_val \<and>
               Tag (Val_Type def_val) \<noteq> TYPE_RECORD \<longrightarrow>
               f i = Some def_val)"
        if i: "i < length t_r" and nm: "td_id (t_r ! i) \<notin> td_id ` set sub_r" for i
      proof -
        from un i nm have "m ! i = - 1" by simp
        then have "Fold_field co ?node t_r rv_type rv i = unmapped_field co (t_r ! i)"
          by (simp add: Fold_field_def)
        with fj [OF i] have "unmapped_field co (t_r ! i) = Inr (f i)" by simp
        then show ?thesis by (auto simp: unmapped_field_value)
      qed
      then have vals: "\<forall>i<length t_r. td_id (t_r ! i) \<notin> td_id ` set sub_r \<longrightarrow>
            (FindAttr (t_r ! i) ATTR_DEFAULT = None \<longrightarrow> f i = None) \<and>
            (\<forall>def def_val.
               FindAttr (t_r ! i) ATTR_DEFAULT = Some def \<and>
               AttrExpr_Eval0 def = Some def_val \<and>
               Tag (Val_Type def_val) \<noteq> TYPE_RECORD \<longrightarrow>
               f i = Some def_val)"
        by blast
      from fold vals show ?thesis by (intro exI [of _ "map f [0..<length t_r]"]) (simp; blast)
    qed
    from True built folds show ?thesis by (simp add: Let_def del: not_None_eq)
  next
    case False
    then have "\<not> (\<forall>i<length t_r. m ! i = - 1 \<longrightarrow> FindAttr (t_r ! i) ATTR_OPTIONAL \<noteq> None)"
      using un by (auto simp: in_set_conv_nth simp del: not_None_eq)
    with len have "unmapped_fields t_r m \<noteq> None" by (simp add: unmapped_fields_None)
    then obtain msg where msg: "unmapped_fields t_r m = Some msg" by auto
    from unmapped_fields_Some [OF _ msg] len obtain i where i: "i < length t_r"
      "m ! i = - 1" "FindAttr (t_r ! i) ATTR_OPTIONAL = None"
      "msg = ''non-optional field '' @ quoted (td_id (t_r ! i)) @ '' missing''"
      by auto
    from un i(1,2) have nm: "td_id (t_r ! i) \<notin> td_id ` set sub_r" by simp
    from ctor msg i(4) have
      "RecordCoerceExpr_ctor co op (RecordType t_r) =
         Inr (\<lparr>coerce_type = BaseType TYPE_ERROR, coerce_op = op, map_size = length t_r,
                coerce_map = m\<rparr>,
              [''non-optional field '' @ quoted (td_id (t_r ! i)) @ '' missing''])"
      by simp
    with False i(1,3) nm show ?thesis
      by (simp add: Let_def RecordCoerceExpr_Eval_def del: not_None_eq)
        (intro bexI [of _ "t_r ! i"], simp_all)
  qed
qed

text \<open>
  Claim C6. The source and the destination are record types, the fields of the
  destination have distinct names, and the first loop of the constructor reports
  nothing (every field of the source has a field of its name and of a compatible type
  in the destination). A field declared with \<^verbatim>\<open>&default\<close> carries \<^verbatim>\<open>&optional\<close> as
  well: that is how the constructor, which tests \<^verbatim>\<open>&optional\<close> alone, admits the
  unmapped fields that \<^verbatim>\<open>Fold\<close> fills from their default. Then:

  \<^item> when every field of the destination that no field of the source is named as is
    optional or carries a default, the constructor reports nothing and leaves a node of
    the destination type; folding a record value with it, when no field aborts, yields
    a record value of the destination type in which such a field is absent when it
    carries no default, and holds the value of its default when it carries one (of a
    type that is not a record);

  \<^item> otherwise the constructor reports "non-optional field ... missing" for such a field,
    which is neither optional nor carries a default, and sets the error flag; the node
    evaluates to null in every state.
\<close>

theorem record_coercion_of_unmapped_fields:
  assumes op: "\<not> IsError op" "Type op = RecordType sub_r"
    and names: "distinct (map td_id t_r)"
    and first_loop: "map_fields co t_r sub_r 0 (replicate (length t_r) (- 1)) = (None, m)"
    and defaults:
      "\<forall>d\<in>set t_r. FindAttr d ATTR_DEFAULT \<noteq> None \<longrightarrow> FindAttr d ATTR_OPTIONAL \<noteq> None"
  shows
    "if \<forall>d\<in>set t_r. td_id d \<notin> td_id ` set sub_r \<longrightarrow>
          FindAttr d ATTR_OPTIONAL \<noteq> None \<or> FindAttr d ATTR_DEFAULT \<noteq> None
     then
       (let node = \<lparr>coerce_type = RecordType t_r, coerce_op = op, map_size = length t_r,
                     coerce_map = m\<rparr>
        in RecordCoerceExpr_ctor co op (RecordType t_r) = Inr (node, []) \<and>
           (\<forall>rv_type rv.
              (\<forall>i<length t_r. \<forall>e. Fold_field co node t_r rv_type rv i \<noteq> Inl e) \<longrightarrow>
              (\<exists>val. RecordCoerceExpr_Fold co node (RecordVal rv_type rv) =
                       Inr (RecordVal t_r val) \<and>
                     length val = length t_r \<and>
                     (\<forall>i<length t_r. td_id (t_r ! i) \<notin> td_id ` set sub_r \<longrightarrow>
                        (FindAttr (t_r ! i) ATTR_DEFAULT = None \<longrightarrow> val ! i = None) \<and>
                        (\<forall>def def_val.
                           FindAttr (t_r ! i) ATTR_DEFAULT = Some def \<and>
                           AttrExpr_Eval0 def = Some def_val \<and>
                           Tag (Val_Type def_val) \<noteq> TYPE_RECORD \<longrightarrow>
                           val ! i = Some def_val)))))
     else
       (\<exists>d\<in>set t_r. td_id d \<notin> td_id ` set sub_r \<and> FindAttr d ATTR_OPTIONAL = None \<and>
          FindAttr d ATTR_DEFAULT = None \<and>
          (let node = \<lparr>coerce_type = BaseType TYPE_ERROR, coerce_op = op,
                        map_size = length t_r, coerce_map = m\<rparr>
           in RecordCoerceExpr_ctor co op (RecordType t_r) =
                Inr (node, [''non-optional field '' @ quoted (td_id d) @ '' missing'']) \<and>
              (\<forall>fp s. RecordCoerceExpr_Eval fp co node s = Inr (None, s))))"
proof (cases "\<forall>d\<in>set t_r. td_id d \<notin> td_id ` set sub_r \<longrightarrow> FindAttr d ATTR_OPTIONAL \<noteq> None")
  case True
  then have admitted: "\<forall>d\<in>set t_r. td_id d \<notin> td_id ` set sub_r \<longrightarrow>
      FindAttr d ATTR_OPTIONAL \<noteq> None \<or> FindAttr d ATTR_DEFAULT \<noteq> None"
    by blast
  from RecordCoerceExpr_unmapped [OF op names first_loop] show ?thesis
    by (simp only: if_P [OF True] if_P [OF admitted])
next
  case False
  with defaults have refused: "\<not> (\<forall>d\<in>set t_r. td_id d \<notin> td_id ` set sub_r \<longrightarrow>
      FindAttr d ATTR_OPTIONAL \<noteq> None \<or> FindAttr d ATTR_DEFAULT \<noteq> None)"
    by blast
  from RecordCoerceExpr_unmapped [OF op names first_loop]
  have "\<exists>d\<in>set t_r. td_id d \<notin> td_id ` set sub_r \<and> FindAttr d ATTR_OPTIONAL = None \<and>
          (let node = \<lparr>coerce_type = BaseType TYPE_ERROR, coerce_op = op,
                        map_size = length t_r, coerce_map = m\<rparr>
           in RecordCoerceExpr_ctor co op (RecordType t_r) =
                Inr (node, [''non-optional field '' @ quoted (td_id d) @ '' missing'']) \<and>
              (\<forall>fp s. RecordCoerceExpr_Eval fp co node s = Inr (None, s)))"
    by (simp only: if_not_P [OF False])
  then obtain d where d: "d \<in> set t_r" "td_id d \<notin> td_id ` set sub_r"
    "FindAttr d ATTR_OPTIONAL = None"
    "let node = \<lparr>coerce_type = BaseType TYPE_ERROR, coerce_op = op,
                   map_size = length t_r, coerce_map = m\<rparr>
     in RecordCoerceExpr_ctor co op (RecordType t_r) =
          Inr (node, [''non-optional field '' @ quoted (td_id d) @ '' missing'']) \<and>
        (\<forall>fp s. RecordCoerceExpr_Eval fp co node s = Inr (None, s))"
    by blast
  from defaults d(1,3) have "FindAttr d ATTR_DEFAULT = None" by blast
  with d have "\<exists>d\<in>set t_r. td_id d \<notin> td_id ` set sub_r \<and> FindAttr d ATTR_OPTIONAL = None \<and>
          FindAttr d ATTR_DEFAULT = None \<and>
          (let node = \<lparr>coerce_type = BaseType TYPE_ERROR, coerce_op = op,
                        map_size = length t_r, coerce_map = m\<rparr>
           in RecordCoerceExpr_ctor co op (RecordType t_r) =
                Inr (node, [''non-optional field '' @ quoted (td_id d) @ '' missing'']) \<and>
              (\<forall>fp s. RecordCoerceExpr_Eval fp co node s = Inr (None, s)))"
    by blast
  then show ?thesis by (simp only: if_not_P [OF refused])
qed

text \<open>
  The theorem at the source \<^verbatim>\<open>[$a = 7]\<close> and the destination fields \<^verbatim>\<open>a: count\<close> and
  \<^verbatim>\<open>b: count\<close>. With \<open>b\<close> optional the coercion is built and folds to a record whose
  field \<open>b\<close> is absent; with \<open>b\<close> carrying a default of 5 (and with it \<^verbatim>\<open>&optional\<close>) it
  folds to a record whose field \<open>b\<close> is 5; with \<open>b\<close> carrying no attribute the
  constructor reports the missing field.
\<close>

theorem record_coercion_of_unmapped_fields_witness:
  "(\<exists>val. RecordCoerceExpr_ctor co_sample (ConstExpr record_a)
             (RecordType (fields_a_b [Attr ATTR_OPTIONAL None])) =
             Inr (coerce_record_a (RecordType (fields_a_b [Attr ATTR_OPTIONAL None])), []) \<and>
          RecordCoerceExpr_Fold co_sample
             (coerce_record_a (RecordType (fields_a_b [Attr ATTR_OPTIONAL None]))) record_a =
             Inr (RecordVal (fields_a_b [Attr ATTR_OPTIONAL None]) val) \<and>
          length val = 2 \<and> val ! 1 = None) \<and>
   (\<exists>val. RecordCoerceExpr_ctor co_sample (ConstExpr record_a)
             (RecordType (fields_a_b default_5)) =
             Inr (coerce_record_a (RecordType (fields_a_b default_5)), []) \<and>
          RecordCoerceExpr_Fold co_sample
             (coerce_record_a (RecordType (fields_a_b default_5))) record_a =
             Inr (RecordVal (fields_a_b default_5) val) \<and>
          length val = 2 \<and> val ! 1 = Some (GetCount 5)) \<and>
   RecordCoerceExpr_ctor co_sample (ConstExpr record_a) (RecordType (fields_a_b [])) =
     Inr (coerce_record_a (BaseType TYPE_ERROR),
          [''non-optional field '' @ quoted ''b'' @ '' missing''])"
proof -
  let ?sub_r = "[TypeDecl (BaseType TYPE_COUNT) ''a'' []]"
  have op: "\<not> IsError (ConstExpr record_a)" "Type (ConstExpr record_a) = RecordType ?sub_r"
    by (simp_all add: IsError_def record_a_def)
  have names: "distinct (map td_id (fields_a_b attrs))" for attrs
    by (simp add: fields_a_b_def)
  have first_loop:
    "map_fields co_sample (fields_a_b attrs) ?sub_r 0
       (replicate (length (fields_a_b attrs)) (- 1)) = (None, [0, - 1])" for attrs
    by (simp add: fields_a_b_def same_type_def)
  have attrs: "attrs = [Attr ATTR_OPTIONAL None] \<or> attrs = default_5 \<or> attrs = [] \<Longrightarrow>
      \<forall>d\<in>set (fields_a_b attrs).
        FindAttr d ATTR_DEFAULT \<noteq> None \<longrightarrow> FindAttr d ATTR_OPTIONAL \<noteq> None" for attrs
    by (auto simp: fields_a_b_def FindAttr_def default_5_def)
  have built_and_folds:
    "\<exists>val. RecordCoerceExpr_ctor co_sample (ConstExpr record_a) (RecordType (fields_a_b attrs)) =
             Inr (coerce_record_a (RecordType (fields_a_b attrs)), []) \<and>
           RecordCoerceExpr_Fold co_sample (coerce_record_a (RecordType (fields_a_b attrs)))
             record_a = Inr (RecordVal (fields_a_b attrs) val) \<and>
           length val = 2 \<and>
           (FindAttr (fields_a_b attrs ! 1) ATTR_DEFAULT = None \<longrightarrow> val ! 1 = None) \<and>
           (FindAttr (fields_a_b attrs ! 1) ATTR_DEFAULT = Some (Attr ATTR_DEFAULT (Some (GetCount 5)))
              \<longrightarrow> val ! 1 = Some (GetCount 5))"
    if which: "attrs = [Attr ATTR_OPTIONAL None] \<or> attrs = default_5" for attrs
  proof -
    let ?t_r = "fields_a_b attrs"
    let ?node = "\<lparr>coerce_type = RecordType ?t_r, coerce_op = ConstExpr record_a,
                   map_size = length ?t_r, coerce_map = [0, - 1]\<rparr>"
    have node: "?node = coerce_record_a (RecordType ?t_r)"
      by (simp add: coerce_record_a_def fields_a_b_def)
    have admitted:
      "\<forall>d\<in>set ?t_r. td_id d \<notin> td_id ` set ?sub_r \<longrightarrow>
         FindAttr d ATTR_OPTIONAL \<noteq> None \<or> FindAttr d ATTR_DEFAULT \<noteq> None"
      using which by (auto simp: fields_a_b_def FindAttr_def default_5_def)
    have no_abort:
      "\<forall>i<length ?t_r. \<forall>e.
         Fold_field co_sample ?node ?t_r ?sub_r [Some (GetCount 7)] i \<noteq> Inl e"
      using which
      by (auto simp: fields_a_b_def Fold_field_def mapped_field_def unmapped_field_def
            FindAttr_def GetCount_def same_type_def less_Suc_eq default_5_def)
    have b: "1 < length ?t_r" "td_id (?t_r ! 1) \<notin> td_id ` set ?sub_r"
      by (simp_all add: fields_a_b_def)
    have count: "Tag (Val_Type (GetCount 5)) \<noteq> TYPE_RECORD" by (simp add: GetCount_def)
    from which have defaults:
      "\<forall>d\<in>set ?t_r. FindAttr d ATTR_DEFAULT \<noteq> None \<longrightarrow> FindAttr d ATTR_OPTIONAL \<noteq> None"
      by (intro attrs) blast
    from record_coercion_of_unmapped_fields [OF op names first_loop defaults]
    have "let node = ?node
          in RecordCoerceExpr_ctor co_sample (ConstExpr record_a) (RecordType ?t_r) =
               Inr (node, []) \<and>
             (\<forall>rv_type rv.
                (\<forall>i<length ?t_r. \<forall>e. Fold_field co_sample node ?t_r rv_type rv i \<noteq> Inl e) \<longrightarrow>
                (\<exists>val. RecordCoerceExpr_Fold co_sample node (RecordVal rv_type rv) =
                         Inr (RecordVal ?t_r val) \<and>
                       length val = length ?t_r \<and>
                       (\<forall>i<length ?t_r. td_id (?t_r ! i) \<notin> td_id ` set ?sub_r \<longrightarrow>
                          (FindAttr (?t_r ! i) ATTR_DEFAULT = None \<longrightarrow> val ! i = None) \<and>
                          (\<forall>def def_val.
                             FindAttr (?t_r ! i) ATTR_DEFAULT = Some def \<and>
                             AttrExpr_Eval0 def = Some def_val \<and>
                             Tag (Val_Type def_val) \<noteq> TYPE_RECORD \<longrightarrow>
                             val ! i = Some def_val))))"
      by (simp only: if_P [OF admitted])
    then have built: "RecordCoerceExpr_ctor co_sample (ConstExpr record_a) (RecordType ?t_r) =
        Inr (?node, [])"
      and folds: "\<exists>val. RecordCoerceExpr_Fold co_sample ?node (RecordVal ?sub_r [Some (GetCount 7)]) =
                         Inr (RecordVal ?t_r val) \<and>
                       length val = length ?t_r \<and>
                       (\<forall>i<length ?t_r. td_id (?t_r ! i) \<notin> td_id ` set ?sub_r \<longrightarrow>
                          (FindAttr (?t_r ! i) ATTR_DEFAULT = None \<longrightarrow> val ! i = None) \<and>
                          (\<forall>def def_val.
                             FindAttr (?t_r ! i) ATTR_DEFAULT = Some def \<and>
                             AttrExpr_Eval0 def = Some def_val \<and>
                             Tag (Val_Type def_val) \<noteq> TYPE_RECORD \<longrightarrow>
                             val ! i = Some def_val))"
      using no_abort unfolding Let_def by blast+
    from folds obtain val where
      val: "RecordCoerceExpr_Fold co_sample ?node (RecordVal ?sub_r [Some (GetCount 7)]) =
              Inr (RecordVal ?t_r val)"
        "length val = length ?t_r"
        "\<forall>i<length ?t_r. td_id (?t_r ! i) \<notin> td_id ` set ?sub_r \<longrightarrow>
           (FindAttr (?t_r ! i) ATTR_DEFAULT = None \<longrightarrow> val ! i = None) \<and>
           (\<forall>def def_val.
              FindAttr (?t_r ! i) ATTR_DEFAULT = Some def \<and>
              AttrExpr_Eval0 def = Some def_val \<and>
              Tag (Val_Type def_val) \<noteq> TYPE_RECORD \<longrightarrow>
              val ! i = Some def_val)"
      by blast
    from val(3) b have absent: "FindAttr (?t_r ! 1) ATTR_DEFAULT = None \<longrightarrow> val ! 1 = None"
      by blast
    from val(3) b count
    have filled: "FindAttr (?t_r ! 1) ATTR_DEFAULT = Some (Attr ATTR_DEFAULT (Some (GetCount 5)))
        \<longrightarrow> val ! 1 = Some (GetCount 5)"
      by (metis Attr.sel(2))
    have "length val = 2" using val(2) by (simp add: fields_a_b_def)
    with built val(1) absent filled show ?thesis
      unfolding node by (intro exI [of _ val]) (simp add: record_a_def)
  qed
  have first:
    "\<exists>val. RecordCoerceExpr_ctor co_sample (ConstExpr record_a)
             (RecordType (fields_a_b [Attr ATTR_OPTIONAL None])) =
             Inr (coerce_record_a (RecordType (fields_a_b [Attr ATTR_OPTIONAL None])), []) \<and>
           RecordCoerceExpr_Fold co_sample
             (coerce_record_a (RecordType (fields_a_b [Attr ATTR_OPTIONAL None]))) record_a =
             Inr (RecordVal (fields_a_b [Attr ATTR_OPTIONAL None]) val) \<and>
           length val = 2 \<and> val ! 1 = None"
    using built_and_folds [of "[Attr ATTR_OPTIONAL None]"]
    by (simp add: fields_a_b_def FindAttr_def)
  have second:
    "\<exists>val. RecordCoerceExpr_ctor co_sample (ConstExpr record_a)
             (RecordType (fields_a_b default_5)) =
             Inr (coerce_record_a (RecordType (fields_a_b default_5)), []) \<and>
           RecordCoerceExpr_Fold co_sample
             (coerce_record_a (RecordType (fields_a_b default_5))) record_a =
             Inr (RecordVal (fields_a_b default_5) val) \<and>
           length val = 2 \<and> val ! 1 = Some (GetCount 5)"
  proof -
    have "FindAttr (fields_a_b default_5 ! 1) ATTR_DEFAULT =
        Some (Attr ATTR_DEFAULT (Some (GetCount 5)))"
      by (simp add: fields_a_b_def FindAttr_def default_5_def)
    with built_and_folds [of default_5] show ?thesis by blast
  qed
  have missing:
    "\<not> (\<forall>d\<in>set (fields_a_b []). td_id d \<notin> td_id ` set ?sub_r \<longrightarrow>
          FindAttr d ATTR_OPTIONAL \<noteq> None \<or> FindAttr d ATTR_DEFAULT \<noteq> None)"
    by (simp add: fields_a_b_def FindAttr_def)
  have none: "\<forall>d\<in>set (fields_a_b []).
      FindAttr d ATTR_DEFAULT \<noteq> None \<longrightarrow> FindAttr d ATTR_OPTIONAL \<noteq> None"
    by (intro attrs) blast
  from record_coercion_of_unmapped_fields [OF op names first_loop none]
  have "\<exists>d\<in>set (fields_a_b []). td_id d \<notin> td_id ` set ?sub_r \<and>
          FindAttr d ATTR_OPTIONAL = None \<and> FindAttr d ATTR_DEFAULT = None \<and>
          (let node = \<lparr>coerce_type = BaseType TYPE_ERROR, coerce_op = ConstExpr record_a,
                        map_size = length (fields_a_b []), coerce_map = [0, - 1]\<rparr>
           in RecordCoerceExpr_ctor co_sample (ConstExpr record_a) (RecordType (fields_a_b [])) =
                Inr (node, [''non-optional field '' @ quoted (td_id d) @ '' missing'']) \<and>
              (\<forall>fp s. RecordCoerceExpr_Eval fp co_sample node s = Inr (None, s)))"
    by (simp only: if_not_P [OF missing])
  then have third:
    "RecordCoerceExpr_ctor co_sample (ConstExpr record_a) (RecordType (fields_a_b [])) =
       Inr (coerce_record_a (BaseType TYPE_ERROR),
            [''non-optional field '' @ quoted ''b'' @ '' missing''])"
    by (auto simp: Let_def coerce_record_a_def fields_a_b_def)
  from first second third show ?thesis by blast
qed

end
